theory Spec2Isabelle
  imports Main "HOL-Library.Multiset"
begin

section \<open>Data model (FormField.tsx, lines 6-29)\<close>

text \<open>
  \<^verbatim>\<open>FieldType\<close> is a closed union of seven string literals. The constructors for
  \<^verbatim>\<open>"section"\<close> and \<^verbatim>\<open>"image"\<close> carry a suffix, as both names are taken in HOL.
\<close>

datatype FieldType =
  multiple_choice | dropdown | free_text | checkbox | section_ft | image_ft | ranking

record Option_t =
  id_o :: string
  value_o :: string

text \<open>An optional property (\<^verbatim>\<open>options?: Option[]\<close>) is \<open>None\<close> when it is undefined.\<close>

record FormFieldType =
  id_f :: string
  type :: FieldType
  question :: string
  formattedQuestion :: "string option"
  required :: bool
  options :: "Option_t list option"
  description :: "string option"
  imageUrl :: "string option"

section \<open>JavaScript helpers\<close>

text \<open>
  Outcomes that leave the typed state space: spreading an undefined \<^verbatim>\<open>options\<close>
  (\<^verbatim>\<open>[...editedField.options!]\<close>) throws, and a splice at an index past the end
  removes nothing, so that the destructured item is \<^verbatim>\<open>undefined\<close> and the array written
  back is no \<^verbatim>\<open>Option[]\<close> any more (the next render fails at \<^verbatim>\<open>option.id\<close>).
\<close>

datatype error = SpreadOfUndefined | UndefinedItem

text \<open>\<^verbatim>\<open>const [x] = xs.splice(d, 1)\<close>: the removed item, if any, and the array left.\<close>

definition splice_remove :: "nat \<Rightarrow> 'a list \<Rightarrow> 'a option \<times> 'a list" where
  "splice_remove d xs =
     (if d < length xs then (Some (xs ! d), take d xs @ drop (Suc d) xs) else (None, xs))"

text \<open>\<^verbatim>\<open>xs.splice(i, 0, x)\<close>: the start index is clamped to the length of the array.\<close>

definition splice_insert :: "nat \<Rightarrow> 'a \<Rightarrow> 'a list \<Rightarrow> 'a list" where
  "splice_insert i x xs =
     (let start = min i (length xs) in take start xs @ [x] @ drop start xs)"

text \<open>
  The two splices of both drop handlers (FormField.tsx 216-218, AddFieldButton.tsx 822-824),
  applied to the copy of the array.
\<close>

definition reorder :: "nat \<Rightarrow> nat \<Rightarrow> 'a list \<Rightarrow> error + 'a list" where
  "reorder d i xs =
     (case splice_remove d xs of
        (None, _) \<Rightarrow> Inl UndefinedItem
      | (Some movedOption, newOptions) \<Rightarrow> Inr (splice_insert i movedOption newOptions))"

text \<open>
  \<^verbatim>\<open>String.prototype.trim\<close> strips white space and line terminators. A \<open>char\<close> is a code
  unit below 256: of those, the tab, line feed, vertical tab, form feed, carriage return,
  space and no-break space (U+00A0) are stripped. The other code points that \<^verbatim>\<open>trim\<close>
  strips (U+1680, U+2000 to U+200A, U+2028, U+2029, U+202F, U+205F, U+3000, U+FEFF) lie
  beyond the range of \<open>char\<close>.
\<close>

definition isWhiteSpace :: "char \<Rightarrow> bool" where
  "isWhiteSpace c =
     (c \<in> set [CHR '' '', CHR 0x09, CHR 0x0A, CHR 0x0B, CHR 0x0C, CHR 0x0D, CHR 0xA0])"

definition trim :: "string \<Rightarrow> string" where
  "trim s = rev (dropWhile isWhiteSpace (rev (dropWhile isWhiteSpace s)))"

text \<open>The decimal digits a template literal prints for a non-negative integer.\<close>

fun showNat :: "nat \<Rightarrow> string" where
  "showNat n =
     (if n < 10 then [char_of (48 + n)]
      else showNat (n div 10) @ [char_of (48 + n mod 10)])"

section \<open>State of the two components\<close>

text \<open>
  The editing surface behind \<^verbatim>\<open>editorRef\<close>: the two DOM properties the handlers read.
\<close>

record Surface =
  innerHTML :: string
  textContent :: string

text \<open>
  Both \<^verbatim>\<open>FormField\<close> and \<^verbatim>\<open>FieldEditor\<close> keep the option drag state in two hooks of the
  same names and take the optional prop \<^verbatim>\<open>onFieldChange\<close>. The prop is a flag (is a
  handler supplied) and \<open>fieldChanges\<close> lists the arguments of the calls made so far,
  oldest first.
\<close>

record Component =
  draggedOptionIndex :: "nat option"
  dropTargetOptionIndex :: "nat option"
  onFieldChange :: bool
  fieldChanges :: "FormFieldType list"

text \<open>
  \<^verbatim>\<open>FieldEditor\<close> (AddFieldButton.tsx 139-154). \<open>editorRef\<close> and \<open>descriptionRef\<close> are
  \<open>None\<close> while the ref is null; \<open>descriptionRef\<close> holds the value of the textarea.
  \<open>uuidCount\<close> is the number of identifiers drawn from the generator so far.
\<close>

record FieldEditor = Component +
  editedField :: FormFieldType
  isTypeDropdownOpen :: bool
  newOption :: string
  editorRef :: "Surface option"
  descriptionRef :: "string option"
  uuidCount :: nat

text \<open>\<^verbatim>\<open>FormField\<close> (FormField.tsx 45-63): the read-only view of one committed field.\<close>

record FormFieldView = Component +
  field :: FormFieldType

section \<open>FieldEditor: type change (AddFieldButton.tsx 199-239)\<close>

text \<open>
  \<^verbatim>\<open>["multiple_choice", "dropdown", "checkbox", "ranking"].includes(type)\<close>, lines 203
  and 460.
\<close>

definition needsOptions :: "FieldType \<Rightarrow> bool" where
  "needsOptions t = (t \<in> set [multiple_choice, dropdown, checkbox, ranking])"

text \<open>\<^verbatim>\<open>["section", "image"].includes(type)\<close>, lines 313 and 461.\<close>

definition isSpecialType :: "FieldType \<Rightarrow> bool" where
  "isSpecialType t = (t \<in> set [section_ft, image_ft])"

text \<open>
  The library generator \<^verbatim>\<open>uuidv4\<close> is a parameter: the function giving the k-th
  identifier it returns. \<^verbatim>\<open>!prev.options || prev.options.length === 0\<close> is the first
  guard; \<^verbatim>\<open>prev.options\<close> alone, in the second, is true of every array, the empty one
  included; \<^verbatim>\<open>prev.imageUrl || ""\<close> keeps a present string.
\<close>

definition handleTypeChange :: "(nat \<Rightarrow> string) \<Rightarrow> FieldType \<Rightarrow> FieldEditor \<Rightarrow> FieldEditor" where
  "handleTypeChange uuidv4 t st =
     (let prev = editedField st; n = uuidCount st in
      if needsOptions t \<and> (case options prev of None \<Rightarrow> True | Some os \<Rightarrow> length os = 0)
      then st\<lparr>editedField := prev\<lparr>type := t,
                 options := Some [\<lparr>id_o = uuidv4 n, value_o = ''Option 1''\<rparr>,
                                  \<lparr>id_o = uuidv4 (n + 1), value_o = ''Option 2''\<rparr>]\<rparr>,
              uuidCount := n + 2, isTypeDropdownOpen := False\<rparr>
      else if t = section_ft \<and> options prev \<noteq> None
      then st\<lparr>editedField := prev\<lparr>type := t, options := Some [],
                 question := ''Section Title''\<rparr>,
              isTypeDropdownOpen := False\<rparr>
      else if t = image_ft
      then st\<lparr>editedField := prev\<lparr>type := t, question := ''Image Question'',
                 imageUrl := Some (case imageUrl prev of None \<Rightarrow> [] | Some u \<Rightarrow> u)\<rparr>,
              isTypeDropdownOpen := False\<rparr>
      else st\<lparr>editedField := prev\<lparr>type := t\<rparr>, isTypeDropdownOpen := False\<rparr>)"

section \<open>FieldEditor: rich text (AddFieldButton.tsx 242-276, 407-420)\<close>

text \<open>
  \<^verbatim>\<open>applyFormatting\<close> comes from \<^verbatim>\<open>utils/richTextUtils\<close> and changes the surface in
  place; it is a parameter here. \<^verbatim>\<open>x || ''\<close> on a string is the string.
\<close>

definition handleFormat ::
  "(string \<Rightarrow> string \<Rightarrow> Surface \<Rightarrow> Surface) \<Rightarrow> string \<Rightarrow> string \<Rightarrow> FieldEditor \<Rightarrow> FieldEditor" where
  "handleFormat applyFormatting command val st =
     (case editorRef st of
        None \<Rightarrow> st
      | Some s \<Rightarrow>
          (let s' = applyFormatting command val s in
           st\<lparr>editorRef := Some s',
              editedField := (editedField st)\<lparr>formattedQuestion := Some (innerHTML s'),
                                             question := textContent s'\<rparr>\<rparr>))"

definition handleEditorChange :: "FieldEditor \<Rightarrow> FieldEditor" where
  "handleEditorChange st =
     (case editorRef st of
        None \<Rightarrow> st
      | Some s \<Rightarrow>
          st\<lparr>editedField := (editedField st)\<lparr>formattedQuestion := Some (innerHTML s),
                                            question := textContent s\<rparr>\<rparr>)"

text \<open>
  \<^verbatim>\<open>handleSave\<close>: the field handed to \<^verbatim>\<open>onSave\<close>. \<^verbatim>\<open>a || b\<close> is \<^verbatim>\<open>b\<close> when \<^verbatim>\<open>a\<close> is the
  empty string or undefined.
\<close>

definition handleSave :: "FieldEditor \<Rightarrow> FormFieldType" where
  "handleSave st =
     (case editorRef st of
        None \<Rightarrow> editedField st
      | Some s \<Rightarrow>
          (editedField st)\<lparr>
             formattedQuestion := Some (innerHTML s),
             question := (if textContent s \<noteq> [] then textContent s
                          else question (editedField st)),
             description := (case descriptionRef st of
                               None \<Rightarrow> description (editedField st)
                             | Some v \<Rightarrow> if v \<noteq> [] then Some v
                                         else description (editedField st))\<rparr>)"

text \<open>
  What the mount effect writes into the surface (lines 157-171): the sanitizer
  \<^verbatim>\<open>sanitizeHtml\<close> of \<^verbatim>\<open>utils/richTextUtils\<close> is a parameter.
\<close>

datatype SurfaceWrite = SetInnerHTML string | SetInnerText string

definition initEditor :: "(string \<Rightarrow> string) \<Rightarrow> FormFieldType \<Rightarrow> SurfaceWrite" where
  "initEditor sanitize f =
     (case formattedQuestion f of
        Some h \<Rightarrow>
          if h \<noteq> [] then SetInnerHTML (sanitize h)
          else if question f \<noteq> [] \<and> question f \<noteq> ''Type your question here''
          then SetInnerText (question f) else SetInnerText []
      | None \<Rightarrow>
          if question f \<noteq> [] \<and> question f \<noteq> ''Type your question here''
          then SetInnerText (question f) else SetInnerText [])"

text \<open>
  \<^verbatim>\<open>renderQuestion\<close> of the read-only view (FormField.tsx 236-257): the tag, and either
  HTML set through \<^verbatim>\<open>dangerouslySetInnerHTML\<close> or a text child.
\<close>

datatype Content = Html string | TextChild string

definition renderQuestion :: "(string \<Rightarrow> string) \<Rightarrow> FormFieldType \<Rightarrow> string \<times> Content" where
  "renderQuestion sanitize f =
     (let content = (case formattedQuestion f of
                       None \<Rightarrow> TextChild (question f)
                     | Some h \<Rightarrow> if h \<noteq> [] then Html (sanitize h)
                                 else TextChild (question f))
      in (if type f = section_ft then ''h2'' else ''p'', content))"

text \<open>
  Modelled from the spec: \<^verbatim>\<open>sanitizeHtml\<close> of \<^verbatim>\<open>utils/richTextUtils\<close>, which is not
  among the sources. The specification says that it strips any markup outside an
  allow-list (bold, italic, underline, strikethrough and basic structural tags) and
  returns HTML restricted to allow-listed tags and attributes. Here a tag is the text
  between \<^verbatim>\<open><\<close> and \<^verbatim>\<open>>\<close>; a tag whose name is on the list is written back without
  attributes, any other tag is dropped, and text is kept.
\<close>

definition allowedTags :: "string list" where
  "allowedTags = [''b'', ''strong'', ''i'', ''em'', ''u'', ''s'', ''strike'', ''del'',
                  ''br'', ''p'', ''div'', ''span'']"

definition isNameChar :: "char \<Rightarrow> bool" where
  "isNameChar c = (let k = of_char c :: nat in (97 \<le> k \<and> k \<le> 122) \<or> (48 \<le> k \<and> k \<le> 57))"

definition keepTag :: "string \<Rightarrow> string" where
  "keepTag body =
     (let closing = (case body of [] \<Rightarrow> False | c # _ \<Rightarrow> c = CHR ''/'');
          name = takeWhile isNameChar (if closing then tl body else body)
      in if name \<in> set allowedTags
         then ''<'' @ (if closing then ''/'' else []) @ name @ ''>''
         else [])"

fun scanHtml :: "string option \<Rightarrow> string \<Rightarrow> string" where
  "scanHtml None [] = []"
| "scanHtml (Some body) [] = []"
| "scanHtml None (c # cs) =
     (if c = CHR ''<'' then scanHtml (Some []) cs else c # scanHtml None cs)"
| "scanHtml (Some body) (c # cs) =
     (if c = CHR ''>'' then keepTag body @ scanHtml None cs
      else scanHtml (Some (body @ [c])) cs)"

definition sanitizeHtml :: "string \<Rightarrow> string" where
  "sanitizeHtml html = scanHtml None html"

section \<open>FieldEditor: required flag and options (AddFieldButton.tsx 311-405)\<close>

definition handleToggleRequired :: "FieldEditor \<Rightarrow> FieldEditor" where
  "handleToggleRequired st =
     (if isSpecialType (type (editedField st)) then st
      else st\<lparr>editedField := (editedField st)\<lparr>required := \<not> required (editedField st)\<rparr>\<rparr>)"

text \<open>
  The tail every option handler shares: store the updated field, and call
  \<^verbatim>\<open>onFieldChange\<close> when a handler exists and the previous field is a ranking question.
\<close>

definition commitOptions :: "FormFieldType \<Rightarrow> FieldEditor \<Rightarrow> FieldEditor" where
  "commitOptions updatedField st =
     st\<lparr>editedField := updatedField,
        fieldChanges := fieldChanges st @
          (if onFieldChange st \<and> type (editedField st) = ranking then [updatedField] else [])\<rparr>"

definition handleOptionChange :: "string \<Rightarrow> string \<Rightarrow> FieldEditor \<Rightarrow> FieldEditor" where
  "handleOptionChange i v st =
     (let prev = editedField st;
          updatedField = prev\<lparr>options :=
            map_option (map (\<lambda>opt. if id_o opt = i then opt\<lparr>value_o := v\<rparr> else opt))
              (options prev)\<rparr>
      in commitOptions updatedField st)"

text \<open>\<^verbatim>\<open>[...(prev.options || []), newOpt]\<close>\<close>

definition appendOption :: "Option_t \<Rightarrow> FormFieldType \<Rightarrow> FormFieldType" where
  "appendOption newOpt prev =
     prev\<lparr>options := Some ((case options prev of None \<Rightarrow> [] | Some os \<Rightarrow> os) @ [newOpt])\<rparr>"

definition handleAddOption :: "(nat \<Rightarrow> string) \<Rightarrow> FieldEditor \<Rightarrow> FieldEditor" where
  "handleAddOption uuidv4 st =
     (let n = uuidCount st; prev = editedField st in
      if trim (newOption st) \<noteq> []
      then (commitOptions (appendOption \<lparr>id_o = uuidv4 n, value_o = newOption st\<rparr> prev) st)
             \<lparr>uuidCount := n + 1, newOption := []\<rparr>
      else (commitOptions
              (appendOption
                 \<lparr>id_o = uuidv4 n,
                  value_o = ''Option '' @
                    showNat ((case options prev of None \<Rightarrow> 0 | Some os \<Rightarrow> length os) + 1)\<rparr>
                 prev) st)
             \<lparr>uuidCount := n + 1\<rparr>)"

definition handleAddOtherOption :: "(nat \<Rightarrow> string) \<Rightarrow> FieldEditor \<Rightarrow> FieldEditor" where
  "handleAddOtherOption uuidv4 st =
     (let n = uuidCount st in
      (commitOptions (appendOption \<lparr>id_o = uuidv4 n, value_o = ''Other''\<rparr> (editedField st)) st)
        \<lparr>uuidCount := n + 1\<rparr>)"

definition handleDeleteOption :: "string \<Rightarrow> FieldEditor \<Rightarrow> FieldEditor" where
  "handleDeleteOption i st =
     (let prev = editedField st;
          updatedField = prev\<lparr>options :=
            map_option (filter (\<lambda>opt. id_o opt \<noteq> i)) (options prev)\<rparr>
      in commitOptions updatedField st)"

section \<open>FieldEditor: dragging an option (AddFieldButton.tsx 804-917)\<close>

definition onDragStart :: "nat \<Rightarrow> FieldEditor \<Rightarrow> FieldEditor" where
  "onDragStart i st = st\<lparr>draggedOptionIndex := Some i\<rparr>"

definition onDragOver :: "nat \<Rightarrow> FieldEditor \<Rightarrow> FieldEditor" where
  "onDragOver i st =
     (if needsOptions (type (editedField st))
      then (if draggedOptionIndex st \<noteq> None \<and> draggedOptionIndex st \<noteq> Some i
            then st\<lparr>dropTargetOptionIndex := Some i\<rparr> else st)
      else st)"

definition onDragLeave :: "FieldEditor \<Rightarrow> FieldEditor" where
  "onDragLeave st =
     (if needsOptions (type (editedField st)) then st\<lparr>dropTargetOptionIndex := None\<rparr> else st)"

text \<open>
  \<^verbatim>\<open>onDrop\<close> calls \<^verbatim>\<open>onFieldChange\<close> whenever a handler exists, whatever the type of the
  field (lines 833-836).
\<close>

definition onDrop :: "nat \<Rightarrow> FieldEditor \<Rightarrow> error + FieldEditor" where
  "onDrop i st =
     (if needsOptions (type (editedField st))
      then (case draggedOptionIndex st of
              None \<Rightarrow> Inr st
            | Some d \<Rightarrow>
                if d = i then Inr st
                else (case options (editedField st) of
                        None \<Rightarrow> Inl SpreadOfUndefined
                      | Some os \<Rightarrow>
                          (case reorder d i os of
                             Inl e \<Rightarrow> Inl e
                           | Inr newOptions \<Rightarrow>
                               (let updatedField = (editedField st)\<lparr>options := Some newOptions\<rparr>
                                in Inr (st\<lparr>editedField := updatedField,
                                           fieldChanges := fieldChanges st @
                                             (if onFieldChange st then [updatedField] else []),
                                           draggedOptionIndex := None,
                                           dropTargetOptionIndex := None\<rparr>)))))
      else Inr st)"

definition onDragEnd :: "FieldEditor \<Rightarrow> FieldEditor" where
  "onDragEnd st = st\<lparr>draggedOptionIndex := None, dropTargetOptionIndex := None\<rparr>"

section \<open>FormField: dragging an option (FormField.tsx 136-233)\<close>

text \<open>The ghost element of \<^verbatim>\<open>handleRankingOptionDragStart\<close> is drawn and removed again.\<close>

definition handleRankingOptionDragStart :: "nat \<Rightarrow> FormFieldView \<Rightarrow> FormFieldView" where
  "handleRankingOptionDragStart optionIndex v = v\<lparr>draggedOptionIndex := Some optionIndex\<rparr>"

definition handleRankingOptionDragOver :: "nat \<Rightarrow> FormFieldView \<Rightarrow> FormFieldView" where
  "handleRankingOptionDragOver optionIndex v =
     (if draggedOptionIndex v = None \<or> draggedOptionIndex v = Some optionIndex
      then v\<lparr>dropTargetOptionIndex := None\<rparr>
      else v\<lparr>dropTargetOptionIndex := Some optionIndex\<rparr>)"

definition handleRankingOptionDragLeave :: "FormFieldView \<Rightarrow> FormFieldView" where
  "handleRankingOptionDragLeave v = v\<lparr>dropTargetOptionIndex := None\<rparr>"

definition handleRankingOptionDrop :: "nat \<Rightarrow> FormFieldView \<Rightarrow> error + FormFieldView" where
  "handleRankingOptionDrop dropIndex v =
     (case draggedOptionIndex v of
        None \<Rightarrow> Inr (v\<lparr>draggedOptionIndex := None, dropTargetOptionIndex := None\<rparr>)
      | Some d \<Rightarrow>
          if d = dropIndex
          then Inr (v\<lparr>draggedOptionIndex := None, dropTargetOptionIndex := None\<rparr>)
          else (case options (field v) of
                  None \<Rightarrow> Inr (v\<lparr>draggedOptionIndex := None, dropTargetOptionIndex := None\<rparr>)
                | Some os \<Rightarrow>
                    (case reorder d dropIndex os of
                       Inl e \<Rightarrow> Inl e
                     | Inr updatedOptions \<Rightarrow>
                         Inr (v\<lparr>fieldChanges := fieldChanges v @
                                  (if onFieldChange v
                                   then [(field v)\<lparr>options := Some updatedOptions\<rparr>] else []),
                                draggedOptionIndex := None,
                                dropTargetOptionIndex := None\<rparr>))))"

section \<open>Drag sequences\<close>

text \<open>
  The events the browser delivers during one drag of an option grip, and the handler each
  component binds to them. The grips of \<^verbatim>\<open>FormField\<close> bind \<^verbatim>\<open>onDragStart\<close> only
  (FormField.tsx 287-293, 330-336, 359-365, 413-419), so a \<^verbatim>\<open>dragend\<close> changes nothing
  there; the grip of \<^verbatim>\<open>FieldEditor\<close> binds \<^verbatim>\<open>onDragEnd\<close> too (AddFieldButton.tsx 914-917).
\<close>

datatype DragEvent = DragStart nat | DragOver nat | DragLeave | Drop nat | DragEnd

fun viewEvent :: "DragEvent \<Rightarrow> FormFieldView \<Rightarrow> error + FormFieldView" where
  "viewEvent (DragStart i) v = Inr (handleRankingOptionDragStart i v)"
| "viewEvent (DragOver i) v = Inr (handleRankingOptionDragOver i v)"
| "viewEvent DragLeave v = Inr (handleRankingOptionDragLeave v)"
| "viewEvent (Drop i) v = handleRankingOptionDrop i v"
| "viewEvent DragEnd v = Inr v"

fun editorEvent :: "DragEvent \<Rightarrow> FieldEditor \<Rightarrow> error + FieldEditor" where
  "editorEvent (DragStart i) st = Inr (onDragStart i st)"
| "editorEvent (DragOver i) st = Inr (onDragOver i st)"
| "editorEvent DragLeave st = Inr (onDragLeave st)"
| "editorEvent (Drop i) st = onDrop i st"
| "editorEvent DragEnd st = Inr (onDragEnd st)"

fun runEvents :: "('e \<Rightarrow> 's \<Rightarrow> error + 's) \<Rightarrow> 'e list \<Rightarrow> 's \<Rightarrow> error + 's" where
  "runEvents step [] s = Inr s"
| "runEvents step (e # es) s =
     (case step e s of Inl err \<Rightarrow> Inl err | Inr s' \<Rightarrow> runEvents step es s')"

section \<open>FormPreview: the required marker (FormHeader.tsx, renderField)\<close>

text \<open>
  Every case of \<^verbatim>\<open>renderField\<close> but \<^verbatim>\<open>"section"\<close> and \<^verbatim>\<open>"image"\<close> renders
  \<^verbatim>\<open>field.required && <span>*</span>\<close>; those two render no marker. The editor shows
  its toggle under \<^verbatim>\<open>!isSpecialType\<close> (AddFieldButton.tsx 649-659).
\<close>

definition renderField_required :: "FormFieldType \<Rightarrow> bool" where
  "renderField_required f =
     (case type f of section_ft \<Rightarrow> False | image_ft \<Rightarrow> False | _ \<Rightarrow> required f)"

definition requiredToggle :: "FieldEditor \<Rightarrow> bool option" where
  "requiredToggle st =
     (if isSpecialType (type (editedField st)) then None
      else Some (required (editedField st)))"

section \<open>The reorder rule in the words of the specification\<close>

text \<open>
  Remove the element at an index; insert an element at a position of the sequence that is
  left.
\<close>

fun removeAt :: "nat \<Rightarrow> 'a list \<Rightarrow> 'a list" where
  "removeAt n [] = []"
| "removeAt 0 (x # xs) = xs"
| "removeAt (Suc n) (x # xs) = x # removeAt n xs"

fun insertAt :: "nat \<Rightarrow> 'a \<Rightarrow> 'a list \<Rightarrow> 'a list" where
  "insertAt 0 y xs = y # xs"
| "insertAt (Suc n) y [] = [y]"
| "insertAt (Suc n) y (x # xs) = x # insertAt n y xs"

definition spec_drop :: "nat \<Rightarrow> nat \<Rightarrow> 'a list \<Rightarrow> 'a list" where
  "spec_drop d j xs = insertAt j (xs ! d) (removeAt d xs)"

section \<open>Sample data for the concrete evaluations\<close>

text \<open>An identifier stream without repetitions: the k-th identifier is k letters long.\<close>

definition sampleUuid :: "nat \<Rightarrow> string" where
  "sampleUuid k = replicate (Suc k) (CHR ''u'')"

definition sampleField :: "FieldType \<Rightarrow> Option_t list option \<Rightarrow> FormFieldType" where
  "sampleField t os =
     \<lparr>id_f = ''f1'', type = t, question = ''Q'', formattedQuestion = None,
      required = True, options = os, description = None, imageUrl = None\<rparr>"

definition sampleOptions :: "Option_t list" where
  "sampleOptions = [\<lparr>id_o = ''a'', value_o = ''A''\<rparr>, \<lparr>id_o = ''b'', value_o = ''B''\<rparr>,
                    \<lparr>id_o = ''c'', value_o = ''C''\<rparr>, \<lparr>id_o = ''d'', value_o = ''D''\<rparr>]"

definition sampleEditor :: "FormFieldType \<Rightarrow> nat option \<Rightarrow> Surface option \<Rightarrow> FieldEditor" where
  "sampleEditor f d s =
     \<lparr>draggedOptionIndex = d, dropTargetOptionIndex = None, onFieldChange = True,
      fieldChanges = [], editedField = f, isTypeDropdownOpen = True, newOption = [],
      editorRef = s, descriptionRef = None, uuidCount = 0\<rparr>"

definition sampleView :: "FormFieldType \<Rightarrow> nat option \<Rightarrow> FormFieldView" where
  "sampleView f d =
     \<lparr>draggedOptionIndex = d, dropTargetOptionIndex = None, onFieldChange = True,
      fieldChanges = [], field = f\<rparr>"

text \<open>
  A stand-in for the browser on the sample surfaces: the bold command wraps the content
  in a \<^verbatim>\<open>b\<close> element, and the text of a piece of HTML is what is left when its tags are
  dropped.
\<close>

definition sampleFormatting :: "string \<Rightarrow> string \<Rightarrow> Surface \<Rightarrow> Surface" where
  "sampleFormatting command val s =
     (if command = ''bold'' then s\<lparr>innerHTML := ''<b>'' @ innerHTML s @ ''</b>''\<rparr> else s)"

fun dropTags :: "bool \<Rightarrow> string \<Rightarrow> string" where
  "dropTags inTag [] = []"
| "dropTags inTag (c # cs) =
     (if c = CHR ''<'' then dropTags True cs
      else if c = CHR ''>'' then dropTags False cs
      else if inTag then dropTags inTag cs
      else c # dropTags inTag cs)"

definition samplePlainText :: "string \<Rightarrow> string" where
  "samplePlainText html = dropTags False html"

section \<open>Reordering by drag and drop\<close>

lemma take_drop_removeAt: "d < length xs \<Longrightarrow> take d xs @ drop (Suc d) xs = removeAt d xs"
  by (induction d xs rule: removeAt.induct) auto

lemma splice_insert_insertAt: "splice_insert i x xs = insertAt i x xs"
proof (induction i x xs rule: insertAt.induct)
  case (1 y xs)
  show ?case by (simp add: splice_insert_def)
next
  case (2 n y)
  show ?case by (simp add: splice_insert_def)
next
  case (3 n y x xs)
  then show ?case by (simp add: splice_insert_def Let_def)
qed

lemma reorder_spec_drop: "d < length xs \<Longrightarrow> reorder d j xs = Inr (spec_drop d j xs)"
  by (simp add: reorder_def splice_remove_def spec_drop_def take_drop_removeAt
      splice_insert_insertAt)

lemma mset_insertAt: "mset (insertAt j x ys) = add_mset x (mset ys)"
  by (induction j x ys rule: insertAt.induct) auto

lemma mset_removeAt: "d < length xs \<Longrightarrow> add_mset (xs ! d) (mset (removeAt d xs)) = mset xs"
  by (induction d xs rule: removeAt.induct) auto

lemma mset_spec_drop: "d < length xs \<Longrightarrow> mset (spec_drop d j xs) = mset xs"
  by (simp add: spec_drop_def mset_insertAt mset_removeAt)

lemma length_spec_drop: "d < length xs \<Longrightarrow> length (spec_drop d j xs) = length xs"
proof -
  assume "d < length xs"
  then have "size (mset (spec_drop d j xs)) = size (mset xs)"
    by (simp add: mset_spec_drop)
  then show ?thesis by simp
qed

lemma onDrop_spec_drop:
  assumes "needsOptions (type (editedField st))" and "draggedOptionIndex st = Some d"
    and "options (editedField st) = Some os" and "d < length os" and "d \<noteq> j"
  shows "onDrop j st =
     Inr (st\<lparr>editedField := (editedField st)\<lparr>options := Some (spec_drop d j os)\<rparr>,
             fieldChanges := fieldChanges st @
               (if onFieldChange st then [(editedField st)\<lparr>options := Some (spec_drop d j os)\<rparr>]
                else []),
             draggedOptionIndex := None, dropTargetOptionIndex := None\<rparr>)"
  using assms by (simp add: onDrop_def reorder_spec_drop Let_def)

lemma handleRankingOptionDrop_spec_drop:
  assumes "draggedOptionIndex v = Some d"
    and "options (field v) = Some os" and "d < length os" and "d \<noteq> j"
  shows "handleRankingOptionDrop j v =
     Inr (v\<lparr>fieldChanges := fieldChanges v @
               (if onFieldChange v then [(field v)\<lparr>options := Some (spec_drop d j os)\<rparr>]
                else []),
            draggedOptionIndex := None, dropTargetOptionIndex := None\<rparr>)"
  using assms by (simp add: handleRankingOptionDrop_def reorder_spec_drop)

text \<open>
  Claim C3. With an active drag of index \<open>d\<close> of the sequence and a drop on an index
  \<open>j \<noteq> d\<close>, both drop handlers produce the sequence obtained by removing the element at
  \<open>d\<close> and inserting it at position \<open>j\<close> of the shortened sequence: the splices compute
  it, \<^verbatim>\<open>handleRankingOptionDrop\<close> hands it to \<^verbatim>\<open>onFieldChange\<close>, and \<^verbatim>\<open>onDrop\<close> of the
  editor stores it. On \<open>[A, B, C, D]\<close>, dragging 0 onto 2 gives \<open>[B, C, A, D]\<close> and dragging
  3 onto 1 gives \<open>[A, D, B, C]\<close>.
\<close>

theorem drop_removes_then_inserts:
  assumes "d < length os" and "d \<noteq> j"
  shows "reorder d j os = Inr (insertAt j (os ! d) (removeAt d os))
    \<and> (draggedOptionIndex v = Some d \<and> options (field v) = Some os \<longrightarrow>
         handleRankingOptionDrop j v =
           Inr (v\<lparr>fieldChanges := fieldChanges v @
                    (if onFieldChange v
                     then [(field v)\<lparr>options := Some (insertAt j (os ! d) (removeAt d os))\<rparr>]
                     else []),
                  draggedOptionIndex := None, dropTargetOptionIndex := None\<rparr>))
    \<and> (needsOptions (type (editedField st)) \<and> draggedOptionIndex st = Some d
         \<and> options (editedField st) = Some os \<longrightarrow>
         (\<exists>st'. onDrop j st = Inr st'
            \<and> options (editedField st') = Some (insertAt j (os ! d) (removeAt d os))))
    \<and> reorder 0 2 [A, B, C, D] = Inr [B, C, A, D]
    \<and> reorder 3 1 [A, B, C, D] = Inr [A, D, B, C]"
proof -
  have general: "reorder d j os = Inr (insertAt j (os ! d) (removeAt d os))"
    using assms reorder_spec_drop [of d os j] by (simp add: spec_drop_def)
  have view: "draggedOptionIndex v = Some d \<and> options (field v) = Some os \<longrightarrow>
         handleRankingOptionDrop j v =
           Inr (v\<lparr>fieldChanges := fieldChanges v @
                    (if onFieldChange v
                     then [(field v)\<lparr>options := Some (insertAt j (os ! d) (removeAt d os))\<rparr>]
                     else []),
                  draggedOptionIndex := None, dropTargetOptionIndex := None\<rparr>)"
    using assms handleRankingOptionDrop_spec_drop [of v d os j] by (simp add: spec_drop_def)
  have editor: "needsOptions (type (editedField st)) \<and> draggedOptionIndex st = Some d
         \<and> options (editedField st) = Some os \<longrightarrow>
         (\<exists>st'. onDrop j st = Inr st'
            \<and> options (editedField st') = Some (insertAt j (os ! d) (removeAt d os)))"
    using assms onDrop_spec_drop [of st d os j] by (simp add: spec_drop_def)
  have down: "reorder 0 2 [A, B, C, D] = Inr [B, C, A, D]"
    by (simp add: reorder_def splice_remove_def splice_insert_def)
  have up: "reorder 3 1 [A, B, C, D] = Inr [A, D, B, C]"
    by (simp add: reorder_def splice_remove_def splice_insert_def)
  from general view editor down up show ?thesis by blast
qed


theorem drop_removes_then_inserts_witness:
  "(0::nat) < length sampleOptions \<and> (0::nat) \<noteq> 2
   \<and> reorder 0 2 sampleOptions =
        Inr [\<lparr>id_o = ''b'', value_o = ''B''\<rparr>, \<lparr>id_o = ''c'', value_o = ''C''\<rparr>,
             \<lparr>id_o = ''a'', value_o = ''A''\<rparr>, \<lparr>id_o = ''d'', value_o = ''D''\<rparr>]
   \<and> (\<exists>v'. handleRankingOptionDrop 2
                (sampleView (sampleField ranking (Some sampleOptions)) (Some 0)) = Inr v'
         \<and> map options (fieldChanges v') =
             [Some [\<lparr>id_o = ''b'', value_o = ''B''\<rparr>, \<lparr>id_o = ''c'', value_o = ''C''\<rparr>,
                    \<lparr>id_o = ''a'', value_o = ''A''\<rparr>, \<lparr>id_o = ''d'', value_o = ''D''\<rparr>]])
   \<and> (\<exists>st'. onDrop 2
                (sampleEditor (sampleField dropdown (Some sampleOptions)) (Some 0) None) = Inr st'
         \<and> options (editedField st') =
             Some [\<lparr>id_o = ''b'', value_o = ''B''\<rparr>, \<lparr>id_o = ''c'', value_o = ''C''\<rparr>,
                   \<lparr>id_o = ''a'', value_o = ''A''\<rparr>, \<lparr>id_o = ''d'', value_o = ''D''\<rparr>])"
proof -
  let ?v = "sampleView (sampleField ranking (Some sampleOptions)) (Some 0)"
  let ?st = "sampleEditor (sampleField dropdown (Some sampleOptions)) (Some 0) None"
  have h1: "(0::nat) < length sampleOptions" by (simp add: sampleOptions_def)
  have h2: "(0::nat) \<noteq> 2" by simp
  have moved: "insertAt 2 (sampleOptions ! 0) (removeAt 0 sampleOptions) =
        [\<lparr>id_o = ''b'', value_o = ''B''\<rparr>, \<lparr>id_o = ''c'', value_o = ''C''\<rparr>,
         \<lparr>id_o = ''a'', value_o = ''A''\<rparr>, \<lparr>id_o = ''d'', value_o = ''D''\<rparr>]"
    by (simp add: sampleOptions_def eval_nat_numeral)
  have view: "draggedOptionIndex ?v = Some 0 \<and> options (field ?v) = Some sampleOptions"
    by (simp add: sampleView_def sampleField_def)
  have editor: "needsOptions (type (editedField ?st)) \<and> draggedOptionIndex ?st = Some 0
      \<and> options (editedField ?st) = Some sampleOptions"
    by (simp add: sampleEditor_def sampleField_def needsOptions_def)
  have vprops: "onFieldChange ?v" "fieldChanges ?v = []"
    by (simp_all add: sampleView_def)
  note T = drop_removes_then_inserts
    [where d = 0 and os = sampleOptions and j = 2 and v = ?v and st = ?st
       and A = "CHR ''A''" and B = "CHR ''B''" and C = "CHR ''C''" and D = "CHR ''D''",
     OF h1 h2, unfolded moved]
  from T have a: "reorder 0 2 sampleOptions =
        Inr [\<lparr>id_o = ''b'', value_o = ''B''\<rparr>, \<lparr>id_o = ''c'', value_o = ''C''\<rparr>,
             \<lparr>id_o = ''a'', value_o = ''A''\<rparr>, \<lparr>id_o = ''d'', value_o = ''D''\<rparr>]"
    by (rule conjunct1)
  from T view vprops have b: "\<exists>v'. handleRankingOptionDrop 2 ?v = Inr v'
         \<and> map options (fieldChanges v') =
             [Some [\<lparr>id_o = ''b'', value_o = ''B''\<rparr>, \<lparr>id_o = ''c'', value_o = ''C''\<rparr>,
                    \<lparr>id_o = ''a'', value_o = ''A''\<rparr>, \<lparr>id_o = ''d'', value_o = ''D''\<rparr>]]"
    by simp
  from T editor have c: "\<exists>st'. onDrop 2 ?st = Inr st'
         \<and> options (editedField st') =
             Some [\<lparr>id_o = ''b'', value_o = ''B''\<rparr>, \<lparr>id_o = ''c'', value_o = ''C''\<rparr>,
                   \<lparr>id_o = ''a'', value_o = ''A''\<rparr>, \<lparr>id_o = ''d'', value_o = ''D''\<rparr>]"
    by blast
  from h1 h2 a b c show ?thesis by blast
qed

text \<open>
  Claim C10. A completed drop with dragged index \<open>d\<close> and target \<open>j \<noteq> d\<close>, both within
  bounds, permutes the options: the new list has the same length and the same options,
  each as often as before, so that no option is duplicated, lost or altered.
\<close>

theorem drop_permutes_options:
  assumes "d < length os" and "j < length os" and "d \<noteq> j"
  shows "(\<exists>ys. reorder d j os = Inr ys \<and> mset ys = mset os \<and> length ys = length os)
    \<and> (draggedOptionIndex v = Some d \<and> options (field v) = Some os \<and> onFieldChange v \<longrightarrow>
         (\<exists>v' ys. handleRankingOptionDrop j v = Inr v'
            \<and> fieldChanges v' = fieldChanges v @ [(field v)\<lparr>options := Some ys\<rparr>]
            \<and> mset ys = mset os \<and> length ys = length os))
    \<and> (needsOptions (type (editedField st)) \<and> draggedOptionIndex st = Some d
         \<and> options (editedField st) = Some os \<longrightarrow>
         (\<exists>st' ys. onDrop j st = Inr st'
            \<and> editedField st' = (editedField st)\<lparr>options := Some ys\<rparr>
            \<and> mset ys = mset os \<and> length ys = length os))"
proof -
  let ?ys = "spec_drop d j os"
  have perm: "mset ?ys = mset os" and len: "length ?ys = length os"
    using assms(1) by (simp_all add: mset_spec_drop length_spec_drop)
  have general: "\<exists>ys. reorder d j os = Inr ys \<and> mset ys = mset os \<and> length ys = length os"
    using assms(1) perm len reorder_spec_drop [of d os j] by blast
  have view: "draggedOptionIndex v = Some d \<and> options (field v) = Some os \<and> onFieldChange v \<longrightarrow>
         (\<exists>v' ys. handleRankingOptionDrop j v = Inr v'
            \<and> fieldChanges v' = fieldChanges v @ [(field v)\<lparr>options := Some ys\<rparr>]
            \<and> mset ys = mset os \<and> length ys = length os)"
  proof
    assume h: "draggedOptionIndex v = Some d \<and> options (field v) = Some os \<and> onFieldChange v"
    then have "\<exists>v'. handleRankingOptionDrop j v = Inr v'
        \<and> fieldChanges v' = fieldChanges v @ [(field v)\<lparr>options := Some ?ys\<rparr>]"
      using assms handleRankingOptionDrop_spec_drop [of v d os j] by simp
    then show "\<exists>v' ys. handleRankingOptionDrop j v = Inr v'
            \<and> fieldChanges v' = fieldChanges v @ [(field v)\<lparr>options := Some ys\<rparr>]
            \<and> mset ys = mset os \<and> length ys = length os"
      using perm len by blast
  qed
  have editor: "needsOptions (type (editedField st)) \<and> draggedOptionIndex st = Some d
         \<and> options (editedField st) = Some os \<longrightarrow>
         (\<exists>st' ys. onDrop j st = Inr st'
            \<and> editedField st' = (editedField st)\<lparr>options := Some ys\<rparr>
            \<and> mset ys = mset os \<and> length ys = length os)"
  proof
    assume h: "needsOptions (type (editedField st)) \<and> draggedOptionIndex st = Some d
         \<and> options (editedField st) = Some os"
    then have "\<exists>st'. onDrop j st = Inr st'
        \<and> editedField st' = (editedField st)\<lparr>options := Some ?ys\<rparr>"
      using assms onDrop_spec_drop [of st d os j] by simp
    then show "\<exists>st' ys. onDrop j st = Inr st'
            \<and> editedField st' = (editedField st)\<lparr>options := Some ys\<rparr>
            \<and> mset ys = mset os \<and> length ys = length os"
      using perm len by blast
  qed
  from general view editor show ?thesis by blast
qed

theorem drop_permutes_options_witness:
  "(3::nat) < length sampleOptions \<and> (1::nat) < length sampleOptions \<and> (3::nat) \<noteq> 1
   \<and> (\<exists>ys. reorder 3 1 sampleOptions = Inr ys \<and> mset ys = mset sampleOptions
         \<and> length ys = length sampleOptions)
   \<and> (\<exists>v' ys. handleRankingOptionDrop 1
         (sampleView (sampleField ranking (Some sampleOptions)) (Some 3)) = Inr v'
         \<and> map options (fieldChanges v') = [Some ys]
         \<and> mset ys = mset sampleOptions \<and> length ys = length sampleOptions)
   \<and> (\<exists>st' ys. onDrop 1
         (sampleEditor (sampleField checkbox (Some sampleOptions)) (Some 3) None) = Inr st'
         \<and> options (editedField st') = Some ys
         \<and> mset ys = mset sampleOptions \<and> length ys = length sampleOptions)"
proof -
  let ?v = "sampleView (sampleField ranking (Some sampleOptions)) (Some 3)"
  let ?st = "sampleEditor (sampleField checkbox (Some sampleOptions)) (Some 3) None"
  have h1: "(3::nat) < length sampleOptions" and h2: "(1::nat) < length sampleOptions"
    by (simp_all add: sampleOptions_def)
  have h3: "(3::nat) \<noteq> 1" by simp
  have view: "draggedOptionIndex ?v = Some 3 \<and> options (field ?v) = Some sampleOptions
      \<and> onFieldChange ?v"
    by (simp add: sampleView_def sampleField_def)
  have editor: "needsOptions (type (editedField ?st)) \<and> draggedOptionIndex ?st = Some 3
      \<and> options (editedField ?st) = Some sampleOptions"
    by (simp add: sampleEditor_def sampleField_def needsOptions_def)
  have fc: "fieldChanges ?v = []" by (simp add: sampleView_def)
  note T = drop_permutes_options
    [where d = 3 and os = sampleOptions and j = 1 and v = ?v and st = ?st, OF h1 h2 h3]
  from T have a: "\<exists>ys. reorder 3 1 sampleOptions = Inr ys \<and> mset ys = mset sampleOptions
         \<and> length ys = length sampleOptions"
    by (rule conjunct1)
  from T view have "\<exists>v' ys. handleRankingOptionDrop 1 ?v = Inr v'
            \<and> fieldChanges v' = fieldChanges ?v @ [(field ?v)\<lparr>options := Some ys\<rparr>]
            \<and> mset ys = mset sampleOptions \<and> length ys = length sampleOptions"
    by blast
  then obtain v' ys where vy: "handleRankingOptionDrop 1 ?v = Inr v'"
      "fieldChanges v' = fieldChanges ?v @ [(field ?v)\<lparr>options := Some ys\<rparr>]"
      "mset ys = mset sampleOptions" "length ys = length sampleOptions"
    by blast
  from vy(2) fc have m: "map options (fieldChanges v') = [Some ys]" by simp
  from vy(1) m vy(3) vy(4) have b: "\<exists>v' ys. handleRankingOptionDrop 1 ?v = Inr v'
         \<and> map options (fieldChanges v') = [Some ys]
         \<and> mset ys = mset sampleOptions \<and> length ys = length sampleOptions"
    by auto
  from T editor have "\<exists>st' ys. onDrop 1 ?st = Inr st'
            \<and> editedField st' = (editedField ?st)\<lparr>options := Some ys\<rparr>
            \<and> mset ys = mset sampleOptions \<and> length ys = length sampleOptions"
    by blast
  then obtain st' zs where sz: "onDrop 1 ?st = Inr st'"
      "editedField st' = (editedField ?st)\<lparr>options := Some zs\<rparr>"
      "mset zs = mset sampleOptions" "length zs = length sampleOptions"
    by blast
  from sz(2) have o: "options (editedField st') = Some zs" by simp
  from sz(1) o sz(3) sz(4) have c: "\<exists>st' ys. onDrop 1 ?st = Inr st'
         \<and> options (editedField st') = Some ys
         \<and> mset ys = mset sampleOptions \<and> length ys = length sampleOptions"
    by auto
  from h1 h2 h3 a b c show ?thesis by blast
qed

section \<open>The type change\<close>

lemma inj_sampleUuid: "inj sampleUuid"
proof (rule injI)
  fix a b assume "sampleUuid a = sampleUuid b"
  then have "length (sampleUuid a) = length (sampleUuid b)" by simp
  then show "a = b" by (simp add: sampleUuid_def)
qed

lemma handleTypeChange_type: "type (editedField (handleTypeChange uuidv4 t st)) = t"
  by (simp add: handleTypeChange_def Let_def)

lemma handleTypeChange_fresh:
  assumes "needsOptions t"
    and "options (editedField st) = None \<or> options (editedField st) = Some []"
  shows "handleTypeChange uuidv4 t st =
     st\<lparr>editedField := (editedField st)\<lparr>type := t,
           options := Some [\<lparr>id_o = uuidv4 (uuidCount st), value_o = ''Option 1''\<rparr>,
                            \<lparr>id_o = uuidv4 (uuidCount st + 1), value_o = ''Option 2''\<rparr>]\<rparr>,
        uuidCount := uuidCount st + 2, isTypeDropdownOpen := False\<rparr>"
  using assms by (auto simp add: handleTypeChange_def Let_def)

lemma handleTypeChange_keep:
  assumes "needsOptions t" and "options (editedField st) = Some os" and "os \<noteq> []"
  shows "handleTypeChange uuidv4 t st =
     st\<lparr>editedField := (editedField st)\<lparr>type := t\<rparr>, isTypeDropdownOpen := False\<rparr>"
  using assms by (auto simp add: handleTypeChange_def Let_def needsOptions_def)

lemma handleTypeChange_section:
  "handleTypeChange uuidv4 section_ft st =
     (if options (editedField st) \<noteq> None
      then st\<lparr>editedField := (editedField st)\<lparr>type := section_ft, options := Some [],
                 question := ''Section Title''\<rparr>, isTypeDropdownOpen := False\<rparr>
      else st\<lparr>editedField := (editedField st)\<lparr>type := section_ft\<rparr>,
              isTypeDropdownOpen := False\<rparr>)"
  by (simp add: handleTypeChange_def Let_def needsOptions_def)

lemma handleTypeChange_image:
  "handleTypeChange uuidv4 image_ft st =
     st\<lparr>editedField := (editedField st)\<lparr>type := image_ft, question := ''Image Question'',
           imageUrl := Some (case imageUrl (editedField st) of None \<Rightarrow> [] | Some u \<Rightarrow> u)\<rparr>,
        isTypeDropdownOpen := False\<rparr>"
  by (simp add: handleTypeChange_def Let_def needsOptions_def)

lemma handleTypeChange_free_text:
  "handleTypeChange uuidv4 free_text st =
     st\<lparr>editedField := (editedField st)\<lparr>type := free_text\<rparr>, isTypeDropdownOpen := False\<rparr>"
  by (simp add: handleTypeChange_def Let_def needsOptions_def)

lemma FieldType_cases:
  "needsOptions t \<or> t = section_ft \<or> t = image_ft \<or> t = free_text"
  by (cases t) (simp_all add: needsOptions_def)

text \<open>
  A multiple choice field with four options, changed to free text, keeps its four options:
  options are present although the new type bears none.
\<close>

theorem type_change_options_counterexample:
  "options (editedField (handleTypeChange sampleUuid free_text
      (sampleEditor (sampleField multiple_choice (Some sampleOptions)) None None)))
     = Some sampleOptions
   \<and> sampleOptions \<noteq> []
   \<and> \<not> needsOptions free_text
   \<and> \<not> (options (editedField (handleTypeChange sampleUuid free_text
            (sampleEditor (sampleField multiple_choice (Some sampleOptions)) None None)))
          \<noteq> None \<longleftrightarrow> needsOptions free_text)"
  by (simp add: handleTypeChange_free_text sampleEditor_def sampleField_def sampleOptions_def
      needsOptions_def)

text \<open>
  Claim C1, as amended. The type change always sets the requested type. When the new type
  is one of multiple choice, dropdown, checkbox and ranking, the result has a non-empty
  options list: the existing one, unchanged and with no identifier drawn, when the field
  had options; otherwise exactly the two defaults \<open>Option 1\<close> and \<open>Option 2\<close>, carrying
  the next two identifiers of the generator. When
  the new type is section, no option is left: the list is emptied when there was one and
  stays absent otherwise. When the new type is free text or image, the options are left
  exactly as they were, so a field that had options keeps them.
\<close>

theorem type_change_options:
  "type (editedField (handleTypeChange uuidv4 t st)) = t
   \<and> (needsOptions t \<longrightarrow>
        (\<exists>os. options (editedField (handleTypeChange uuidv4 t st)) = Some os \<and> os \<noteq> []
           \<and> (\<forall>ps. options (editedField st) = Some ps \<and> ps \<noteq> [] \<longrightarrow> os = ps)))
   \<and> (needsOptions t
        \<and> (options (editedField st) = None \<or> options (editedField st) = Some []) \<longrightarrow>
        options (editedField (handleTypeChange uuidv4 t st)) =
          Some [\<lparr>id_o = uuidv4 (uuidCount st), value_o = ''Option 1''\<rparr>,
                \<lparr>id_o = uuidv4 (uuidCount st + 1), value_o = ''Option 2''\<rparr>]
      \<and> uuidCount (handleTypeChange uuidv4 t st) = uuidCount st + 2)
   \<and> (needsOptions t
        \<and> (\<exists>ps. options (editedField st) = Some ps \<and> ps \<noteq> []) \<longrightarrow>
        options (editedField (handleTypeChange uuidv4 t st)) = options (editedField st)
      \<and> uuidCount (handleTypeChange uuidv4 t st) = uuidCount st)
   \<and> (t = section_ft \<longrightarrow>
        options (editedField (handleTypeChange uuidv4 t st)) =
          (if options (editedField st) = None then None else Some []))
   \<and> (t = free_text \<or> t = image_ft \<longrightarrow>
        options (editedField (handleTypeChange uuidv4 t st)) = options (editedField st))"
proof -
  have defaults: "needsOptions t
        \<and> (options (editedField st) = None \<or> options (editedField st) = Some []) \<longrightarrow>
        options (editedField (handleTypeChange uuidv4 t st)) =
          Some [\<lparr>id_o = uuidv4 (uuidCount st), value_o = ''Option 1''\<rparr>,
                \<lparr>id_o = uuidv4 (uuidCount st + 1), value_o = ''Option 2''\<rparr>]
      \<and> uuidCount (handleTypeChange uuidv4 t st) = uuidCount st + 2"
  proof
    assume h: "needsOptions t
        \<and> (options (editedField st) = None \<or> options (editedField st) = Some [])"
    then have n: "needsOptions t"
      and e: "options (editedField st) = None \<or> options (editedField st) = Some []"
      by simp_all
    show "options (editedField (handleTypeChange uuidv4 t st)) =
          Some [\<lparr>id_o = uuidv4 (uuidCount st), value_o = ''Option 1''\<rparr>,
                \<lparr>id_o = uuidv4 (uuidCount st + 1), value_o = ''Option 2''\<rparr>]
      \<and> uuidCount (handleTypeChange uuidv4 t st) = uuidCount st + 2"
      by (simp add: handleTypeChange_fresh [OF n e])
  qed
  have kept: "needsOptions t
        \<and> (\<exists>ps. options (editedField st) = Some ps \<and> ps \<noteq> []) \<longrightarrow>
        options (editedField (handleTypeChange uuidv4 t st)) = options (editedField st)
      \<and> uuidCount (handleTypeChange uuidv4 t st) = uuidCount st"
  proof
    assume h: "needsOptions t \<and> (\<exists>ps. options (editedField st) = Some ps \<and> ps \<noteq> [])"
    then obtain ps where n: "needsOptions t"
      and ps: "options (editedField st) = Some ps" "ps \<noteq> []"
      by auto
    show "options (editedField (handleTypeChange uuidv4 t st)) = options (editedField st)
      \<and> uuidCount (handleTypeChange uuidv4 t st) = uuidCount st"
      by (simp add: handleTypeChange_keep [OF n ps])
  qed
  have bearing: "needsOptions t \<longrightarrow>
        (\<exists>os. options (editedField (handleTypeChange uuidv4 t st)) = Some os \<and> os \<noteq> []
           \<and> (\<forall>ps. options (editedField st) = Some ps \<and> ps \<noteq> [] \<longrightarrow> os = ps))"
  proof
    assume n: "needsOptions t"
    show "\<exists>os. options (editedField (handleTypeChange uuidv4 t st)) = Some os \<and> os \<noteq> []
           \<and> (\<forall>ps. options (editedField st) = Some ps \<and> ps \<noteq> [] \<longrightarrow> os = ps)"
    proof (cases "options (editedField st) = None \<or> options (editedField st) = Some []")
      case True
      then show ?thesis
        using n by (auto simp add: handleTypeChange_fresh)
    next
      case False
      then obtain ps where ps: "options (editedField st) = Some ps" "ps \<noteq> []" by auto
      then show ?thesis
        using n by (simp add: handleTypeChange_keep)
    qed
  qed
  have sec: "t = section_ft \<longrightarrow>
        options (editedField (handleTypeChange uuidv4 t st)) =
          (if options (editedField st) = None then None else Some [])"
    by (simp add: handleTypeChange_section)
  have other: "t = free_text \<or> t = image_ft \<longrightarrow>
        options (editedField (handleTypeChange uuidv4 t st)) = options (editedField st)"
    by (auto simp add: handleTypeChange_free_text handleTypeChange_image)
  from handleTypeChange_type [of uuidv4 t st] bearing defaults kept sec other
  show ?thesis by (intro conjI)
qed

text \<open>
  Claim C2. For a field whose options list is absent or empty, a change to one of multiple
  choice, dropdown, checkbox and ranking yields exactly the two options \<open>Option 1\<close> and
  \<open>Option 2\<close>, in that order. Their identifiers are the next two the generator gives: with
  a generator that never repeats an identifier they differ from each other and from every
  identifier drawn before.
\<close>

theorem type_change_default_options:
  assumes "inj uuidv4" and "needsOptions t"
    and "options (editedField st) = None \<or> options (editedField st) = Some []"
  shows "type (editedField (handleTypeChange uuidv4 t st)) = t
    \<and> options (editedField (handleTypeChange uuidv4 t st)) =
        Some [\<lparr>id_o = uuidv4 (uuidCount st), value_o = ''Option 1''\<rparr>,
              \<lparr>id_o = uuidv4 (uuidCount st + 1), value_o = ''Option 2''\<rparr>]
    \<and> uuidv4 (uuidCount st) \<noteq> uuidv4 (uuidCount st + 1)
    \<and> (\<forall>k < uuidCount st. uuidv4 k \<noteq> uuidv4 (uuidCount st)
                          \<and> uuidv4 k \<noteq> uuidv4 (uuidCount st + 1))
    \<and> uuidCount (handleTypeChange uuidv4 t st) = uuidCount st + 2"
proof -
  have distinct: "uuidv4 (uuidCount st) \<noteq> uuidv4 (uuidCount st + 1)"
    using assms(1) by (simp add: inj_eq)
  have fresh: "\<forall>k < uuidCount st. uuidv4 k \<noteq> uuidv4 (uuidCount st)
                          \<and> uuidv4 k \<noteq> uuidv4 (uuidCount st + 1)"
    using assms(1) by (simp add: inj_eq)
  show ?thesis
    using distinct fresh by (simp add: handleTypeChange_fresh [OF assms(2) assms(3)])
qed

theorem type_change_default_options_witness:
  "inj sampleUuid \<and> needsOptions checkbox
   \<and> (options (editedField ((sampleEditor (sampleField free_text None) None None)\<lparr>uuidCount := 3\<rparr>))
        = None
      \<or> options (editedField ((sampleEditor (sampleField free_text None) None None)\<lparr>uuidCount := 3\<rparr>))
        = Some [])
   \<and> options (editedField (handleTypeChange sampleUuid checkbox
        ((sampleEditor (sampleField free_text None) None None)\<lparr>uuidCount := 3\<rparr>))) =
        Some [\<lparr>id_o = ''uuuu'', value_o = ''Option 1''\<rparr>,
              \<lparr>id_o = ''uuuuu'', value_o = ''Option 2''\<rparr>]
   \<and> sampleUuid 2 \<noteq> ''uuuu'' \<and> sampleUuid 2 \<noteq> ''uuuuu''"
proof -
  let ?st = "(sampleEditor (sampleField free_text None) None None)\<lparr>uuidCount := 3\<rparr>"
  have h2: "needsOptions checkbox" by (simp add: needsOptions_def)
  have h3: "options (editedField ?st) = None \<or> options (editedField ?st) = Some []"
    by (simp add: sampleEditor_def sampleField_def)
  have n: "uuidCount ?st = 3" by (simp add: sampleEditor_def)
  have ids: "sampleUuid 3 = ''uuuu''" "sampleUuid (3 + 1) = ''uuuuu''"
    by (simp_all add: sampleUuid_def eval_nat_numeral)
  note T = type_change_default_options [OF inj_sampleUuid h2 h3, unfolded n ids]
  from T have earlier: "\<forall>k < 3. sampleUuid k \<noteq> ''uuuu'' \<and> sampleUuid k \<noteq> ''uuuuu''"
    by simp
  then have "sampleUuid 2 \<noteq> ''uuuu'' \<and> sampleUuid 2 \<noteq> ''uuuuu''"
    by simp
  with inj_sampleUuid h2 h3 T show ?thesis by simp
qed


theorem type_change_options_witness:
  "needsOptions dropdown \<and> (free_text = free_text \<or> free_text = image_ft)
   \<and> options (editedField (handleTypeChange sampleUuid dropdown
        (sampleEditor (sampleField free_text None) None None))) =
        Some [\<lparr>id_o = ''u'', value_o = ''Option 1''\<rparr>, \<lparr>id_o = ''uu'', value_o = ''Option 2''\<rparr>]
   \<and> options (editedField (handleTypeChange sampleUuid dropdown
        (sampleEditor (sampleField checkbox (Some sampleOptions)) None None))) =
        Some sampleOptions
   \<and> options (editedField (handleTypeChange sampleUuid section_ft
        (sampleEditor (sampleField checkbox (Some sampleOptions)) None None))) = Some []
   \<and> options (editedField (handleTypeChange sampleUuid free_text
        (sampleEditor (sampleField checkbox (Some sampleOptions)) None None))) =
        Some sampleOptions"
proof -
  let ?empty = "sampleEditor (sampleField free_text None) None None"
  let ?full = "sampleEditor (sampleField checkbox (Some sampleOptions)) None None"
  have h: "needsOptions dropdown" by (simp add: needsOptions_def)
  have full: "options (editedField ?full) = Some sampleOptions" "sampleOptions \<noteq> []"
    by (simp_all add: sampleEditor_def sampleField_def sampleOptions_def)
  have empty: "options (editedField ?empty) = None \<or> options (editedField ?empty) = Some []"
    "uuidCount ?empty = 0"
    by (simp_all add: sampleEditor_def sampleField_def)
  have ids: "sampleUuid 0 = ''u''" "sampleUuid (0 + 1) = ''uu''"
    by (simp_all add: sampleUuid_def)
  from type_change_options [of sampleUuid dropdown ?empty] h empty(1)
  have "options (editedField (handleTypeChange sampleUuid dropdown ?empty)) =
          Some [\<lparr>id_o = sampleUuid (uuidCount ?empty), value_o = ''Option 1''\<rparr>,
                \<lparr>id_o = sampleUuid (uuidCount ?empty + 1), value_o = ''Option 2''\<rparr>]"
    by blast
  then have a: "options (editedField (handleTypeChange sampleUuid dropdown ?empty)) =
        Some [\<lparr>id_o = ''u'', value_o = ''Option 1''\<rparr>, \<lparr>id_o = ''uu'', value_o = ''Option 2''\<rparr>]"
    by (simp only: empty(2) ids)
  have b: "options (editedField (handleTypeChange sampleUuid dropdown ?full)) =
        Some sampleOptions"
    using type_change_options [of sampleUuid dropdown ?full] h full by auto
  have c: "options (editedField (handleTypeChange sampleUuid section_ft ?full)) = Some []"
    using type_change_options [of sampleUuid section_ft ?full] full by simp
  have d: "options (editedField (handleTypeChange sampleUuid free_text ?full)) =
        Some sampleOptions"
    using type_change_options [of sampleUuid free_text ?full] full by simp
  from h a b c d show ?thesis by simp
qed

lemma handleTypeChange_idem:
  "handleTypeChange uuidv4 t (handleTypeChange uuidv4 t st) = handleTypeChange uuidv4 t st"
proof -
  consider (bearing) "needsOptions t" | (sec) "t = section_ft" | (img) "t = image_ft"
    | (plain) "t = free_text"
    using FieldType_cases [of t] by blast
  then show ?thesis
  proof cases
    case bearing
    show ?thesis
    proof (cases "options (editedField st) = None \<or> options (editedField st) = Some []")
      case True
      let ?os = "[\<lparr>id_o = uuidv4 (uuidCount st), value_o = ''Option 1''\<rparr>,
                  \<lparr>id_o = uuidv4 (uuidCount st + 1), value_o = ''Option 2''\<rparr>]"
      have o: "options (editedField (handleTypeChange uuidv4 t st)) = Some ?os"
        by (simp add: handleTypeChange_fresh [OF bearing True])
      have ne: "?os \<noteq> []" by simp
      have "handleTypeChange uuidv4 t (handleTypeChange uuidv4 t st) =
          (handleTypeChange uuidv4 t st)\<lparr>editedField :=
              (editedField (handleTypeChange uuidv4 t st))\<lparr>type := t\<rparr>,
            isTypeDropdownOpen := False\<rparr>"
        by (rule handleTypeChange_keep [OF bearing o ne])
      then show ?thesis
        by (simp add: handleTypeChange_fresh [OF bearing True])
    next
      case False
      then obtain ps where ps: "options (editedField st) = Some ps" "ps \<noteq> []" by auto
      show ?thesis
        by (simp add: handleTypeChange_keep [OF bearing ps]
            handleTypeChange_keep [OF bearing, of _ ps] ps)
    qed
  next
    case sec
    then show ?thesis by (simp add: handleTypeChange_section)
  next
    case img
    then show ?thesis by (simp add: handleTypeChange_image)
  next
    case plain
    then show ?thesis by (simp add: handleTypeChange_free_text)
  qed
qed

text \<open>
  Re-selecting the current type is not always a no-op: an image field whose question was
  edited gets the default question back, and a dropdown whose options were all deleted
  gets two new options with two new identifiers.
\<close>

theorem type_change_same_type_counterexample:
  "type (sampleField image_ft None) = image_ft
   \<and> editedField (handleTypeChange sampleUuid image_ft
        (sampleEditor (sampleField image_ft None) None None)) \<noteq> sampleField image_ft None
   \<and> question (editedField (handleTypeChange sampleUuid image_ft
        (sampleEditor (sampleField image_ft None) None None))) = ''Image Question''
   \<and> question (sampleField image_ft None) = ''Q''
   \<and> type (sampleField dropdown (Some [])) = dropdown
   \<and> options (editedField (handleTypeChange sampleUuid dropdown
        (sampleEditor (sampleField dropdown (Some [])) None None))) =
        Some [\<lparr>id_o = ''u'', value_o = ''Option 1''\<rparr>, \<lparr>id_o = ''uu'', value_o = ''Option 2''\<rparr>]
   \<and> uuidCount (handleTypeChange sampleUuid dropdown
        (sampleEditor (sampleField dropdown (Some [])) None None)) = 2
   \<and> uuidCount (sampleEditor (sampleField dropdown (Some [])) None None) = 0"
proof -
  have img: "editedField (handleTypeChange sampleUuid image_ft
        (sampleEditor (sampleField image_ft None) None None)) =
      (sampleField image_ft None)\<lparr>question := ''Image Question'', imageUrl := Some []\<rparr>"
    by (simp add: handleTypeChange_image sampleEditor_def sampleField_def)
  have q: "question (sampleField image_ft None) = ''Q''"
    and ty: "type (sampleField image_ft None) = image_ft"
      "type (sampleField dropdown (Some [])) = dropdown"
    by (simp_all add: sampleField_def)
  have ne: "editedField (handleTypeChange sampleUuid image_ft
        (sampleEditor (sampleField image_ft None) None None)) \<noteq> sampleField image_ft None"
  proof
    assume "editedField (handleTypeChange sampleUuid image_ft
        (sampleEditor (sampleField image_ft None) None None)) = sampleField image_ft None"
    then have "question ((sampleField image_ft None)
        \<lparr>question := ''Image Question'', imageUrl := Some []\<rparr>) =
        question (sampleField image_ft None)"
      by (simp add: img)
    then show False by (simp add: q)
  qed
  have dd: "handleTypeChange sampleUuid dropdown
        (sampleEditor (sampleField dropdown (Some [])) None None) =
      (sampleEditor (sampleField dropdown (Some [])) None None)
        \<lparr>editedField := (sampleField dropdown (Some []))\<lparr>type := dropdown,
           options := Some [\<lparr>id_o = ''u'', value_o = ''Option 1''\<rparr>,
                            \<lparr>id_o = ''uu'', value_o = ''Option 2''\<rparr>]\<rparr>,
         uuidCount := 2, isTypeDropdownOpen := False\<rparr>"
    by (simp add: handleTypeChange_def needsOptions_def sampleEditor_def sampleField_def
        sampleUuid_def)
  have c0: "uuidCount (sampleEditor (sampleField dropdown (Some [])) None None) = 0"
    by (simp add: sampleEditor_def)
  show ?thesis
    using ne ty q c0 by (simp add: img dd)
qed

text \<open>
  Claim C7, as amended. Selecting the current type again leaves the field as it is and
  draws no identifier when the type is free text, when it is one of the four types with
  options and the options list is non-empty, or when it is section and no options list is
  present. For every field and every type, applying the same change a second time changes
  nothing.
\<close>

theorem type_change_same_type:
  "(type (editedField st) = t
      \<and> (t = free_text
         \<or> (needsOptions t \<and> (\<exists>os. options (editedField st) = Some os \<and> os \<noteq> []))
         \<or> (t = section_ft \<and> options (editedField st) = None))
     \<longrightarrow> editedField (handleTypeChange uuidv4 t st) = editedField st
         \<and> uuidCount (handleTypeChange uuidv4 t st) = uuidCount st)
   \<and> handleTypeChange uuidv4 t (handleTypeChange uuidv4 t st) = handleTypeChange uuidv4 t st"
proof -
  have same: "type (editedField st) = t
      \<and> (t = free_text
         \<or> (needsOptions t \<and> (\<exists>os. options (editedField st) = Some os \<and> os \<noteq> []))
         \<or> (t = section_ft \<and> options (editedField st) = None))
     \<longrightarrow> editedField (handleTypeChange uuidv4 t st) = editedField st
         \<and> uuidCount (handleTypeChange uuidv4 t st) = uuidCount st"
  proof
    assume h: "type (editedField st) = t
      \<and> (t = free_text
         \<or> (needsOptions t \<and> (\<exists>os. options (editedField st) = Some os \<and> os \<noteq> []))
         \<or> (t = section_ft \<and> options (editedField st) = None))"
    then have ty: "(editedField st)\<lparr>type := t\<rparr> = editedField st" by auto
    from h consider (plain) "t = free_text"
      | (bearing) os where "needsOptions t" "options (editedField st) = Some os" "os \<noteq> []"
      | (sec) "t = section_ft" "options (editedField st) = None"
      by auto
    then show "editedField (handleTypeChange uuidv4 t st) = editedField st
         \<and> uuidCount (handleTypeChange uuidv4 t st) = uuidCount st"
    proof cases
      case plain
      with ty show ?thesis by (simp add: handleTypeChange_free_text)
    next
      case bearing
      with ty show ?thesis by (simp add: handleTypeChange_keep [OF bearing])
    next
      case sec
      with ty show ?thesis by (simp add: handleTypeChange_section)
    qed
  qed
  from same handleTypeChange_idem [of uuidv4 t st] show ?thesis by blast
qed

theorem type_change_same_type_witness:
  "type (editedField (sampleEditor (sampleField ranking (Some sampleOptions)) None None)) = ranking
   \<and> needsOptions ranking
   \<and> (\<exists>os. options (editedField (sampleEditor (sampleField ranking (Some sampleOptions)) None None))
         = Some os \<and> os \<noteq> [])
   \<and> editedField (handleTypeChange sampleUuid ranking
        (sampleEditor (sampleField ranking (Some sampleOptions)) None None)) =
        sampleField ranking (Some sampleOptions)
   \<and> uuidCount (handleTypeChange sampleUuid ranking
        (sampleEditor (sampleField ranking (Some sampleOptions)) None None)) = 0
   \<and> handleTypeChange sampleUuid image_ft (handleTypeChange sampleUuid image_ft
        (sampleEditor (sampleField free_text None) None None)) =
      handleTypeChange sampleUuid image_ft (sampleEditor (sampleField free_text None) None None)"
proof -
  let ?st = "sampleEditor (sampleField ranking (Some sampleOptions)) None None"
  have h1: "type (editedField ?st) = ranking" by (simp add: sampleEditor_def sampleField_def)
  have h2: "needsOptions ranking" by (simp add: needsOptions_def)
  have h3: "\<exists>os. options (editedField ?st) = Some os \<and> os \<noteq> []"
    by (simp add: sampleEditor_def sampleField_def sampleOptions_def)
  have e: "editedField ?st = sampleField ranking (Some sampleOptions)" "uuidCount ?st = 0"
    by (simp_all add: sampleEditor_def)
  have a: "editedField (handleTypeChange sampleUuid ranking ?st) = editedField ?st
         \<and> uuidCount (handleTypeChange sampleUuid ranking ?st) = uuidCount ?st"
    using type_change_same_type [of ?st ranking sampleUuid] h1 h2 h3 by blast
  have b: "handleTypeChange sampleUuid image_ft (handleTypeChange sampleUuid image_ft
        (sampleEditor (sampleField free_text None) None None)) =
      handleTypeChange sampleUuid image_ft (sampleEditor (sampleField free_text None) None None)"
    using type_change_same_type
      [of "sampleEditor (sampleField free_text None) None None" image_ft sampleUuid]
    by (rule conjunct2)
  from h1 h2 h3 a b show ?thesis by (simp add: e)
qed

section \<open>The required flag\<close>

text \<open>
  Claim C8. For a field of type section or image the required marker reads as false,
  whatever the stored flag, the editor shows no toggle, and \<^verbatim>\<open>handleToggleRequired\<close>
  leaves the editor exactly as it is. For a field of any other type the marker is the
  stored flag and the toggle negates it, changing nothing else.
\<close>

theorem required_special_types:
  "((type (editedField st) = section_ft \<or> type (editedField st) = image_ft) \<longrightarrow>
       \<not> renderField_required (editedField st)
     \<and> \<not> renderField_required ((editedField st)\<lparr>required := True\<rparr>)
     \<and> requiredToggle st = None
     \<and> handleToggleRequired st = st)
   \<and> (type (editedField st) \<noteq> section_ft \<and> type (editedField st) \<noteq> image_ft \<longrightarrow>
       renderField_required (editedField st) = required (editedField st)
     \<and> handleToggleRequired st =
         st\<lparr>editedField := (editedField st)\<lparr>required := \<not> required (editedField st)\<rparr>\<rparr>
     \<and> required (editedField (handleToggleRequired st)) = (\<not> required (editedField st)))"
proof -
  have special: "(type (editedField st) = section_ft \<or> type (editedField st) = image_ft) \<longrightarrow>
       \<not> renderField_required (editedField st)
     \<and> \<not> renderField_required ((editedField st)\<lparr>required := True\<rparr>)
     \<and> requiredToggle st = None
     \<and> handleToggleRequired st = st"
    by (auto simp add: renderField_required_def requiredToggle_def handleToggleRequired_def
        isSpecialType_def)
  have other: "type (editedField st) \<noteq> section_ft \<and> type (editedField st) \<noteq> image_ft \<longrightarrow>
       renderField_required (editedField st) = required (editedField st)
     \<and> handleToggleRequired st =
         st\<lparr>editedField := (editedField st)\<lparr>required := \<not> required (editedField st)\<rparr>\<rparr>
     \<and> required (editedField (handleToggleRequired st)) = (\<not> required (editedField st))"
    by (cases "type (editedField st)")
      (simp_all add: renderField_required_def handleToggleRequired_def isSpecialType_def)
  from special other show ?thesis by (rule conjI)
qed

theorem required_special_types_witness:
  "(type (editedField (sampleEditor (sampleField section_ft None) None None)) = section_ft
      \<or> type (editedField (sampleEditor (sampleField section_ft None) None None)) = image_ft)
   \<and> required (sampleField section_ft None)
   \<and> \<not> renderField_required (sampleField section_ft None)
   \<and> handleToggleRequired (sampleEditor (sampleField section_ft None) None None) =
       sampleEditor (sampleField section_ft None) None None
   \<and> type (editedField (sampleEditor (sampleField checkbox None) None None)) \<noteq> section_ft
   \<and> type (editedField (sampleEditor (sampleField checkbox None) None None)) \<noteq> image_ft
   \<and> required (sampleField checkbox None)
   \<and> \<not> required (editedField (handleToggleRequired
         (sampleEditor (sampleField checkbox None) None None)))"
proof -
  let ?s = "sampleEditor (sampleField section_ft None) None None"
  let ?c = "sampleEditor (sampleField checkbox None) None None"
  have hs: "type (editedField ?s) = section_ft \<or> type (editedField ?s) = image_ft"
    by (simp add: sampleEditor_def sampleField_def)
  have hc: "type (editedField ?c) \<noteq> section_ft \<and> type (editedField ?c) \<noteq> image_ft"
    by (simp add: sampleEditor_def sampleField_def)
  have e: "editedField ?s = sampleField section_ft None"
    "editedField ?c = sampleField checkbox None"
    by (simp_all add: sampleEditor_def)
  have r: "required (sampleField section_ft None)" "required (sampleField checkbox None)"
    by (simp_all add: sampleField_def)
  from required_special_types [of ?s] hs
  have a: "\<not> renderField_required (editedField ?s) \<and> handleToggleRequired ?s = ?s"
    by blast
  from required_special_types [of ?c] hc
  have b: "required (editedField (handleToggleRequired ?c)) = (\<not> required (editedField ?c))"
    by blast
  from hs hc r a b show ?thesis by (simp add: e)
qed

section \<open>Rich text\<close>

lemma handleEditorChange_field:
  "editorRef st = Some s \<Longrightarrow>
   editedField (handleEditorChange st) =
     (editedField st)\<lparr>formattedQuestion := Some (innerHTML s), question := textContent s\<rparr>"
  by (simp add: handleEditorChange_def)

lemma handleFormat_field:
  "editorRef st = Some s \<Longrightarrow>
   editedField (handleFormat applyFormatting c v st) =
     (editedField st)\<lparr>formattedQuestion := Some (innerHTML (applyFormatting c v s)),
                      question := textContent (applyFormatting c v s)\<rparr>"
  by (simp add: handleFormat_def Let_def)

lemma handleSave_question:
  "editorRef st = Some s \<Longrightarrow>
   question (handleSave st) =
     (if textContent s \<noteq> [] then textContent s else question (editedField st))"
  by (simp add: handleSave_def)

lemma handleSave_formattedQuestion:
  "editorRef st = Some s \<Longrightarrow> formattedQuestion (handleSave st) = Some (innerHTML s)"
  by (simp add: handleSave_def)

text \<open>
  A field that still carries the placeholder question is opened (the surface starts
  empty) and saved without typing: the saved field has the empty string as its HTML and
  the placeholder as its question, which is not the text of the surface.
\<close>

theorem question_in_sync_counterexample:
  "initEditor sanitizeHtml ((sampleField free_text None)\<lparr>question := ''Type your question here''\<rparr>)
     = SetInnerText []
   \<and> formattedQuestion (handleSave
        (sampleEditor ((sampleField free_text None)\<lparr>question := ''Type your question here''\<rparr>)
           None (Some \<lparr>innerHTML = [], textContent = []\<rparr>))) = Some []
   \<and> question (handleSave
        (sampleEditor ((sampleField free_text None)\<lparr>question := ''Type your question here''\<rparr>)
           None (Some \<lparr>innerHTML = [], textContent = []\<rparr>))) = ''Type your question here''
   \<and> question (handleSave
        (sampleEditor ((sampleField free_text None)\<lparr>question := ''Type your question here''\<rparr>)
           None (Some \<lparr>innerHTML = [], textContent = []\<rparr>)))
       \<noteq> textContent \<lparr>innerHTML = [], textContent = []\<rparr>
   \<and> question (handleSave
        (sampleEditor ((sampleField free_text None)\<lparr>question := ''Type your question here''\<rparr>)
           None (Some \<lparr>innerHTML = [], textContent = []\<rparr>)))
       \<noteq> samplePlainText []"
  by (simp add: initEditor_def handleSave_def sampleEditor_def sampleField_def
      samplePlainText_def)

text \<open>
  Claim C4, as amended. On a surface whose text content is the plain text of its HTML,
  after every editor content change and after every formatting command the question is
  the plain text of the stored HTML: the stored HTML is the HTML of the surface and the
  question is its text content. In the field handed over by Save the same holds whenever
  the text content of the surface is not empty; with an empty surface Save keeps the
  question the session had, while the stored HTML is still the HTML of the surface.
\<close>

theorem question_in_sync:
  assumes "editorRef st = Some s"
    and "textContent s = plainText (innerHTML s)"
    and "textContent (applyFormatting c v s) = plainText (innerHTML (applyFormatting c v s))"
  shows "(\<exists>h. formattedQuestion (editedField (handleEditorChange st)) = Some h
            \<and> question (editedField (handleEditorChange st)) = plainText h)
    \<and> (\<exists>h. formattedQuestion (editedField (handleFormat applyFormatting c v st)) = Some h
            \<and> question (editedField (handleFormat applyFormatting c v st)) = plainText h)
    \<and> (textContent s \<noteq> [] \<longrightarrow>
         (\<exists>h. formattedQuestion (handleSave st) = Some h
            \<and> question (handleSave st) = plainText h))
    \<and> (textContent s = [] \<longrightarrow>
         question (handleSave st) = question (editedField st)
       \<and> formattedQuestion (handleSave st) = Some (innerHTML s))
    \<and> formattedQuestion (editedField (handleEditorChange st)) = Some (innerHTML s)
    \<and> question (editedField (handleEditorChange st)) = textContent s
    \<and> formattedQuestion (editedField (handleFormat applyFormatting c v st)) =
        Some (innerHTML (applyFormatting c v s))
    \<and> question (editedField (handleFormat applyFormatting c v st)) =
        textContent (applyFormatting c v s)
    \<and> formattedQuestion (handleSave st) = Some (innerHTML s)
    \<and> question (handleSave st) =
        (if textContent s \<noteq> [] then textContent s else question (editedField st))"
proof -
  have change: "\<exists>h. formattedQuestion (editedField (handleEditorChange st)) = Some h
            \<and> question (editedField (handleEditorChange st)) = plainText h"
    using assms(2) by (simp add: handleEditorChange_field [OF assms(1)])
  have format: "\<exists>h. formattedQuestion (editedField (handleFormat applyFormatting c v st)) = Some h
            \<and> question (editedField (handleFormat applyFormatting c v st)) = plainText h"
    using assms(3) by (simp add: handleFormat_field [OF assms(1)])
  have save: "textContent s \<noteq> [] \<longrightarrow>
         (\<exists>h. formattedQuestion (handleSave st) = Some h
            \<and> question (handleSave st) = plainText h)"
    using assms(2)
    by (simp add: handleSave_question [OF assms(1)] handleSave_formattedQuestion [OF assms(1)])
  have kept: "textContent s = [] \<longrightarrow>
         question (handleSave st) = question (editedField st)
       \<and> formattedQuestion (handleSave st) = Some (innerHTML s)"
    by (simp add: handleSave_question [OF assms(1)] handleSave_formattedQuestion [OF assms(1)])
  have exact: "formattedQuestion (editedField (handleEditorChange st)) = Some (innerHTML s)"
    "question (editedField (handleEditorChange st)) = textContent s"
    "formattedQuestion (editedField (handleFormat applyFormatting c v st)) =
        Some (innerHTML (applyFormatting c v s))"
    "question (editedField (handleFormat applyFormatting c v st)) =
        textContent (applyFormatting c v s)"
    by (simp_all add: handleEditorChange_field [OF assms(1)] handleFormat_field [OF assms(1)])
  from change format save kept exact handleSave_formattedQuestion [OF assms(1)]
    handleSave_question [OF assms(1)]
  show ?thesis by (intro conjI)
qed

theorem question_in_sync_witness:
  "editorRef (sampleEditor (sampleField free_text None) None
      (Some \<lparr>innerHTML = ''Q'', textContent = ''Q''\<rparr>)) = Some \<lparr>innerHTML = ''Q'', textContent = ''Q''\<rparr>
   \<and> textContent \<lparr>innerHTML = ''Q'', textContent = ''Q''\<rparr> = samplePlainText ''Q''
   \<and> sampleFormatting ''bold'' [] \<lparr>innerHTML = ''Q'', textContent = ''Q''\<rparr> =
        \<lparr>innerHTML = ''<b>Q</b>'', textContent = ''Q''\<rparr>
   \<and> samplePlainText ''<b>Q</b>'' = ''Q''
   \<and> (\<exists>h. formattedQuestion (editedField (handleFormat sampleFormatting ''bold'' []
              (sampleEditor (sampleField free_text None) None
                 (Some \<lparr>innerHTML = ''Q'', textContent = ''Q''\<rparr>)))) = Some h
          \<and> question (editedField (handleFormat sampleFormatting ''bold'' []
              (sampleEditor (sampleField free_text None) None
                 (Some \<lparr>innerHTML = ''Q'', textContent = ''Q''\<rparr>)))) = samplePlainText h)
   \<and> textContent \<lparr>innerHTML = ''Q'', textContent = ''Q''\<rparr> \<noteq> []
   \<and> (\<exists>h. formattedQuestion (handleSave (sampleEditor (sampleField free_text None) None
                 (Some \<lparr>innerHTML = ''Q'', textContent = ''Q''\<rparr>))) = Some h
          \<and> question (handleSave (sampleEditor (sampleField free_text None) None
                 (Some \<lparr>innerHTML = ''Q'', textContent = ''Q''\<rparr>))) = samplePlainText h)
   \<and> textContent \<lparr>innerHTML = [], textContent = []\<rparr> = []
   \<and> question (handleSave (sampleEditor (sampleField free_text None) None
        (Some \<lparr>innerHTML = [], textContent = []\<rparr>))) = ''Q''
   \<and> formattedQuestion (handleSave (sampleEditor (sampleField free_text None) None
        (Some \<lparr>innerHTML = [], textContent = []\<rparr>))) = Some []"
proof -
  let ?s = "\<lparr>innerHTML = ''Q'', textContent = ''Q''\<rparr>"
  let ?st = "sampleEditor (sampleField free_text None) None (Some ?s)"
  let ?e = "\<lparr>innerHTML = [], textContent = []\<rparr>"
  let ?se = "sampleEditor (sampleField free_text None) None (Some ?e)"
  have e1: "editorRef ?se = Some ?e" by (simp add: sampleEditor_def)
  have e2: "textContent ?e = samplePlainText (innerHTML ?e)"
    by (simp add: samplePlainText_def)
  have e3: "textContent (sampleFormatting ''bold'' [] ?e) =
      samplePlainText (innerHTML (sampleFormatting ''bold'' [] ?e))"
    by (simp add: sampleFormatting_def samplePlainText_def)
  have e4: "textContent ?e = []" by simp
  have q: "question (editedField ?se) = ''Q''" by (simp add: sampleEditor_def sampleField_def)
  note E = question_in_sync
    [where st = ?se and s = ?e and plainText = samplePlainText
       and applyFormatting = sampleFormatting and c = "''bold''" and v = "[]",
     OF e1 e2 e3]
  from E e4 have "question (handleSave ?se) = question (editedField ?se)
       \<and> formattedQuestion (handleSave ?se) = Some (innerHTML ?e)"
    by blast
  then have empty: "question (handleSave ?se) = ''Q''"
    "formattedQuestion (handleSave ?se) = Some []"
    by (simp_all add: q)
  have h1: "editorRef ?st = Some ?s" by (simp add: sampleEditor_def)
  have h2: "textContent ?s = samplePlainText (innerHTML ?s)"
    by (simp add: samplePlainText_def)
  have bold: "sampleFormatting ''bold'' [] ?s = \<lparr>innerHTML = ''<b>Q</b>'', textContent = ''Q''\<rparr>"
    by (simp add: sampleFormatting_def)
  have plain: "samplePlainText ''<b>Q</b>'' = ''Q''" by (simp add: samplePlainText_def)
  have h3: "textContent (sampleFormatting ''bold'' [] ?s) =
      samplePlainText (innerHTML (sampleFormatting ''bold'' [] ?s))"
    by (simp add: bold plain)
  have h4: "textContent ?s \<noteq> []" by simp
  note T = question_in_sync
    [where st = ?st and s = ?s and plainText = samplePlainText
       and applyFormatting = sampleFormatting and c = "''bold''" and v = "[]",
     OF h1 h2 h3]
  from T have f: "\<exists>h. formattedQuestion (editedField (handleFormat sampleFormatting ''bold'' [] ?st))
          = Some h
      \<and> question (editedField (handleFormat sampleFormatting ''bold'' [] ?st)) = samplePlainText h"
    by blast
  from T h4 have s: "\<exists>h. formattedQuestion (handleSave ?st) = Some h
      \<and> question (handleSave ?st) = samplePlainText h"
    by blast
  from h1 h2 bold plain f h4 s empty show ?thesis by simp
qed

section \<open>Sanitizing\<close>

text \<open>
  HTML with an image element that carries a script is in the surface: the editor change
  and Save store it as it is, while the sanitizer would have dropped the element.
\<close>

theorem stored_html_sanitized_counterexample:
  "formattedQuestion (editedField (handleEditorChange
      (sampleEditor (sampleField free_text None) None
         (Some \<lparr>innerHTML = ''hi<img src=x onerror=alert(1)>'', textContent = ''hi''\<rparr>))))
     = Some ''hi<img src=x onerror=alert(1)>''
   \<and> formattedQuestion (handleSave
      (sampleEditor (sampleField free_text None) None
         (Some \<lparr>innerHTML = ''hi<img src=x onerror=alert(1)>'', textContent = ''hi''\<rparr>)))
     = Some ''hi<img src=x onerror=alert(1)>''
   \<and> sanitizeHtml ''hi<img src=x onerror=alert(1)>'' = ''hi''
   \<and> formattedQuestion (editedField (handleEditorChange
      (sampleEditor (sampleField free_text None) None
         (Some \<lparr>innerHTML = ''hi<img src=x onerror=alert(1)>'', textContent = ''hi''\<rparr>))))
     \<noteq> Some (sanitizeHtml ''hi<img src=x onerror=alert(1)>'')"
proof -
  have san: "sanitizeHtml ''hi<img src=x onerror=alert(1)>'' = ''hi''"
    by (simp add: sanitizeHtml_def keepTag_def isNameChar_def allowedTags_def)
  show ?thesis
    by (simp add: san handleEditorChange_def handleSave_def sampleEditor_def)
qed

text \<open>
  Claim C5, as amended. On every editor change, on every formatting command and in the
  field handed over by Save, the stored HTML is the current HTML of the editing surface,
  exactly as the surface reports it. The sanitizer is applied where stored HTML is read
  back: when the surface is seeded from it at the start of a session, and when the
  question is rendered.
\<close>

theorem stored_html_is_surface_html:
  assumes "editorRef st = Some s"
  shows "formattedQuestion (editedField (handleEditorChange st)) = Some (innerHTML s)
    \<and> formattedQuestion (editedField (handleFormat applyFormatting c v st)) =
        Some (innerHTML (applyFormatting c v s))
    \<and> formattedQuestion (handleSave st) = Some (innerHTML s)
    \<and> (formattedQuestion f = Some h \<and> h \<noteq> [] \<longrightarrow>
         initEditor sanitize f = SetInnerHTML (sanitize h)
       \<and> snd (renderQuestion sanitize f) = Html (sanitize h))"
proof -
  have read: "formattedQuestion f = Some h \<and> h \<noteq> [] \<longrightarrow>
         initEditor sanitize f = SetInnerHTML (sanitize h)
       \<and> snd (renderQuestion sanitize f) = Html (sanitize h)"
    by (simp add: initEditor_def renderQuestion_def)
  show ?thesis
    using read
    by (simp add: handleEditorChange_field [OF assms] handleFormat_field [OF assms]
        handleSave_formattedQuestion [OF assms])
qed

theorem stored_html_is_surface_html_witness:
  "editorRef (sampleEditor (sampleField free_text None) None
      (Some \<lparr>innerHTML = ''<u>Q</u><font>!</font>'', textContent = ''Q!''\<rparr>)) =
      Some \<lparr>innerHTML = ''<u>Q</u><font>!</font>'', textContent = ''Q!''\<rparr>
   \<and> formattedQuestion (handleSave (sampleEditor (sampleField free_text None) None
      (Some \<lparr>innerHTML = ''<u>Q</u><font>!</font>'', textContent = ''Q!''\<rparr>))) =
      Some ''<u>Q</u><font>!</font>''
   \<and> ''<u>Q</u><font>!</font>'' \<noteq> []
   \<and> initEditor sanitizeHtml
        ((sampleField free_text None)\<lparr>formattedQuestion := Some ''<u>Q</u><font>!</font>''\<rparr>) =
        SetInnerHTML ''<u>Q</u>!''
   \<and> snd (renderQuestion sanitizeHtml
        ((sampleField free_text None)\<lparr>formattedQuestion := Some ''<u>Q</u><font>!</font>''\<rparr>)) =
        Html ''<u>Q</u>!''"
proof -
  let ?s = "\<lparr>innerHTML = ''<u>Q</u><font>!</font>'', textContent = ''Q!''\<rparr>"
  let ?st = "sampleEditor (sampleField free_text None) None (Some ?s)"
  let ?f = "(sampleField free_text None)\<lparr>formattedQuestion := Some ''<u>Q</u><font>!</font>''\<rparr>"
  have h1: "editorRef ?st = Some ?s" by (simp add: sampleEditor_def)
  have h2: "formattedQuestion ?f = Some ''<u>Q</u><font>!</font>'' \<and> ''<u>Q</u><font>!</font>'' \<noteq> []"
    by simp
  have san: "sanitizeHtml ''<u>Q</u><font>!</font>'' = ''<u>Q</u>!''"
    by (simp add: sanitizeHtml_def keepTag_def isNameChar_def allowedTags_def)
  note T = stored_html_is_surface_html
    [OF h1, where f = ?f and h = "''<u>Q</u><font>!</font>''" and sanitize = sanitizeHtml]
  from T have a: "formattedQuestion (handleSave ?st) = Some (innerHTML ?s)" by blast
  from T h2 have b: "initEditor sanitizeHtml ?f = SetInnerHTML (sanitizeHtml ''<u>Q</u><font>!</font>'')
       \<and> snd (renderQuestion sanitizeHtml ?f) = Html (sanitizeHtml ''<u>Q</u><font>!</font>'')"
    by blast
  from h1 a b show ?thesis by (simp add: san)
qed

section \<open>Mirroring option changes\<close>

lemma fieldChanges_commitOptions:
  "fieldChanges (commitOptions u st) = fieldChanges st @
     (if onFieldChange st \<and> type (editedField st) = ranking then [u] else [])"
  by (simp add: commitOptions_def)

lemma editedField_commitOptions: "editedField (commitOptions u st) = u"
  by (simp add: commitOptions_def)

lemma mirrored_handleOptionChange:
  "fieldChanges (handleOptionChange i v st) = fieldChanges st @
     (if onFieldChange st \<and> type (editedField st) = ranking
      then [editedField (handleOptionChange i v st)] else [])"
  by (simp add: handleOptionChange_def Let_def fieldChanges_commitOptions
      editedField_commitOptions)

lemma mirrored_handleDeleteOption:
  "fieldChanges (handleDeleteOption i st) = fieldChanges st @
     (if onFieldChange st \<and> type (editedField st) = ranking
      then [editedField (handleDeleteOption i st)] else [])"
  by (simp add: handleDeleteOption_def Let_def fieldChanges_commitOptions
      editedField_commitOptions)

lemma mirrored_handleAddOption:
  "fieldChanges (handleAddOption uuidv4 st) = fieldChanges st @
     (if onFieldChange st \<and> type (editedField st) = ranking
      then [editedField (handleAddOption uuidv4 st)] else [])"
  by (simp add: handleAddOption_def Let_def fieldChanges_commitOptions
      editedField_commitOptions)

lemma mirrored_handleAddOtherOption:
  "fieldChanges (handleAddOtherOption uuidv4 st) = fieldChanges st @
     (if onFieldChange st \<and> type (editedField st) = ranking
      then [editedField (handleAddOtherOption uuidv4 st)] else [])"
  by (simp add: handleAddOtherOption_def Let_def fieldChanges_commitOptions
      editedField_commitOptions)

lemma handleSave_options: "options (handleSave st) = options (editedField st)"
  by (simp add: handleSave_def split: option.splits)

text \<open>
  In the editor of a multiple choice field, dropping option 0 onto option 1 calls
  \<^verbatim>\<open>onFieldChange\<close> with the reordered field at once, although the field is no ranking
  question.
\<close>

theorem option_changes_mirrored_counterexample:
  "type (editedField (sampleEditor (sampleField multiple_choice (Some sampleOptions)) (Some 0) None))
     = multiple_choice
   \<and> fieldChanges (sampleEditor (sampleField multiple_choice (Some sampleOptions)) (Some 0) None)
     = []
   \<and> onDrop 1 (sampleEditor (sampleField multiple_choice (Some sampleOptions)) (Some 0) None) =
       Inr ((sampleEditor (sampleField multiple_choice (Some sampleOptions)) None None)
         \<lparr>editedField := sampleField multiple_choice
             (Some [\<lparr>id_o = ''b'', value_o = ''B''\<rparr>, \<lparr>id_o = ''a'', value_o = ''A''\<rparr>,
                    \<lparr>id_o = ''c'', value_o = ''C''\<rparr>, \<lparr>id_o = ''d'', value_o = ''D''\<rparr>]),
          fieldChanges := [sampleField multiple_choice
             (Some [\<lparr>id_o = ''b'', value_o = ''B''\<rparr>, \<lparr>id_o = ''a'', value_o = ''A''\<rparr>,
                    \<lparr>id_o = ''c'', value_o = ''C''\<rparr>, \<lparr>id_o = ''d'', value_o = ''D''\<rparr>])]\<rparr>)"
  by (simp add: onDrop_def reorder_def splice_remove_def splice_insert_def needsOptions_def
      sampleEditor_def sampleField_def sampleOptions_def Let_def)

text \<open>
  Claim C6, as amended. When an option is updated, added, added as \<open>Other\<close> or deleted,
  the editor calls \<^verbatim>\<open>onFieldChange\<close> with the updated field at once if and only if a
  handler is supplied and the field is a ranking question. When options are reordered by
  a drop, it calls \<^verbatim>\<open>onFieldChange\<close> with the updated field at once whenever a handler is
  supplied, whatever the type of the field. The field handed over by Save carries the
  options of the session.
\<close>

theorem option_changes_mirrored:
  "fieldChanges (handleOptionChange i v st) = fieldChanges st @
     (if onFieldChange st \<and> type (editedField st) = ranking
      then [editedField (handleOptionChange i v st)] else [])
   \<and> fieldChanges (handleAddOption gen st) = fieldChanges st @
     (if onFieldChange st \<and> type (editedField st) = ranking
      then [editedField (handleAddOption gen st)] else [])
   \<and> fieldChanges (handleAddOtherOption gen st) = fieldChanges st @
     (if onFieldChange st \<and> type (editedField st) = ranking
      then [editedField (handleAddOtherOption gen st)] else [])
   \<and> fieldChanges (handleDeleteOption i st) = fieldChanges st @
     (if onFieldChange st \<and> type (editedField st) = ranking
      then [editedField (handleDeleteOption i st)] else [])
   \<and> (needsOptions (type (editedField st)) \<and> draggedOptionIndex st = Some d \<and> d \<noteq> j
        \<and> options (editedField st) = Some os \<and> d < length os \<longrightarrow>
        (\<exists>st'. onDrop j st = Inr st'
           \<and> fieldChanges st' = fieldChanges st @
               (if onFieldChange st then [editedField st'] else [])))
   \<and> options (handleSave st) = options (editedField st)"
proof -
  have drop: "needsOptions (type (editedField st)) \<and> draggedOptionIndex st = Some d \<and> d \<noteq> j
        \<and> options (editedField st) = Some os \<and> d < length os \<longrightarrow>
        (\<exists>st'. onDrop j st = Inr st'
           \<and> fieldChanges st' = fieldChanges st @
               (if onFieldChange st then [editedField st'] else []))"
  proof
    assume h: "needsOptions (type (editedField st)) \<and> draggedOptionIndex st = Some d \<and> d \<noteq> j
        \<and> options (editedField st) = Some os \<and> d < length os"
    then show "\<exists>st'. onDrop j st = Inr st'
           \<and> fieldChanges st' = fieldChanges st @
               (if onFieldChange st then [editedField st'] else [])"
      using onDrop_spec_drop [of st d os j] by simp
  qed
  from mirrored_handleOptionChange [of i v st] mirrored_handleAddOption [of gen st]
    mirrored_handleAddOtherOption [of gen st] mirrored_handleDeleteOption [of i st]
    drop handleSave_options [of st]
  show ?thesis by (intro conjI)
qed

theorem option_changes_mirrored_witness:
  "onFieldChange (sampleEditor (sampleField ranking (Some sampleOptions)) (Some 0) None)
   \<and> map options (fieldChanges (handleDeleteOption ''a''
        (sampleEditor (sampleField ranking (Some sampleOptions)) (Some 0) None))) =
       [Some [\<lparr>id_o = ''b'', value_o = ''B''\<rparr>, \<lparr>id_o = ''c'', value_o = ''C''\<rparr>,
              \<lparr>id_o = ''d'', value_o = ''D''\<rparr>]]
   \<and> fieldChanges (handleDeleteOption ''a''
        (sampleEditor (sampleField checkbox (Some sampleOptions)) (Some 0) None)) = []
   \<and> needsOptions (type (editedField
        (sampleEditor (sampleField checkbox (Some sampleOptions)) (Some 0) None)))
   \<and> (0::nat) \<noteq> 1 \<and> (0::nat) < length sampleOptions
   \<and> (\<exists>st'. onDrop 1 (sampleEditor (sampleField checkbox (Some sampleOptions)) (Some 0) None)
           = Inr st'
         \<and> fieldChanges st' = [editedField st'])"
proof -
  let ?r = "sampleEditor (sampleField ranking (Some sampleOptions)) (Some 0) None"
  let ?c = "sampleEditor (sampleField checkbox (Some sampleOptions)) (Some 0) None"
  have props: "onFieldChange ?r" "onFieldChange ?c" "fieldChanges ?r = []" "fieldChanges ?c = []"
    "type (editedField ?r) = ranking" "type (editedField ?c) = checkbox"
    by (simp_all add: sampleEditor_def sampleField_def)
  have del: "options (editedField (handleDeleteOption ''a'' ?r)) =
       Some [\<lparr>id_o = ''b'', value_o = ''B''\<rparr>, \<lparr>id_o = ''c'', value_o = ''C''\<rparr>,
             \<lparr>id_o = ''d'', value_o = ''D''\<rparr>]"
    by (simp add: handleDeleteOption_def commitOptions_def sampleEditor_def sampleField_def
        sampleOptions_def Let_def)
  have h: "needsOptions (type (editedField ?c)) \<and> draggedOptionIndex ?c = Some 0 \<and> (0::nat) \<noteq> 1
        \<and> options (editedField ?c) = Some sampleOptions \<and> 0 < length sampleOptions"
    by (simp add: sampleEditor_def sampleField_def sampleOptions_def needsOptions_def)
  note R = option_changes_mirrored
    [where st = ?r and i = "''a''" and v = "[]" and gen = sampleUuid and d = 0 and j = 1
       and os = sampleOptions]
  note C = option_changes_mirrored
    [where st = ?c and i = "''a''" and v = "[]" and gen = sampleUuid and d = 0 and j = 1
       and os = sampleOptions]
  from R have "fieldChanges (handleDeleteOption ''a'' ?r) = fieldChanges ?r @
     (if onFieldChange ?r \<and> type (editedField ?r) = ranking
      then [editedField (handleDeleteOption ''a'' ?r)] else [])"
    by blast
  then have a: "map options (fieldChanges (handleDeleteOption ''a'' ?r)) =
       [Some [\<lparr>id_o = ''b'', value_o = ''B''\<rparr>, \<lparr>id_o = ''c'', value_o = ''C''\<rparr>,
              \<lparr>id_o = ''d'', value_o = ''D''\<rparr>]]"
    by (simp add: props del)
  from C have "fieldChanges (handleDeleteOption ''a'' ?c) = fieldChanges ?c @
     (if onFieldChange ?c \<and> type (editedField ?c) = ranking
      then [editedField (handleDeleteOption ''a'' ?c)] else [])"
    by blast
  then have b: "fieldChanges (handleDeleteOption ''a'' ?c) = []"
    by (simp add: props)
  from C h have "\<exists>st'. onDrop 1 ?c = Inr st'
           \<and> fieldChanges st' = fieldChanges ?c @
               (if onFieldChange ?c then [editedField st'] else [])"
    by blast
  then have c: "\<exists>st'. onDrop 1 ?c = Inr st' \<and> fieldChanges st' = [editedField st']"
    by (simp add: props)
  from props(1) a b h c show ?thesis by simp
qed

section \<open>The end of a drag\<close>

text \<open>
  Claim C9 fails in the read-only view. A drag of option 1 that hovers over option 2,
  leaves it and ends without a drop leaves \<open>draggedOptionIndex\<close> at 1 in \<^verbatim>\<open>FormField\<close>,
  whose grips bind no \<^verbatim>\<open>onDragEnd\<close>; the same events reset both indices in
  \<^verbatim>\<open>FieldEditor\<close>.
\<close>

theorem view_drag_end_keeps_dragged_index:
  "runEvents viewEvent [DragStart 1, DragOver 2, DragLeave, DragEnd]
      (sampleView (sampleField ranking (Some sampleOptions)) None) =
     Inr (sampleView (sampleField ranking (Some sampleOptions)) (Some 1))
   \<and> draggedOptionIndex (sampleView (sampleField ranking (Some sampleOptions)) (Some 1)) = Some 1
   \<and> runEvents editorEvent [DragStart 1, DragOver 2, DragLeave, DragEnd]
      (sampleEditor (sampleField ranking (Some sampleOptions)) None None) =
     Inr (sampleEditor (sampleField ranking (Some sampleOptions)) None None)"
  by (simp add: handleRankingOptionDragStart_def handleRankingOptionDragOver_def
      handleRankingOptionDragLeave_def onDragStart_def onDragOver_def onDragLeave_def
      onDragEnd_def needsOptions_def sampleView_def sampleEditor_def sampleField_def)

end
